theory Spec2Isabelle
  imports Complex_Main "HOL-Library.Word" "HOL-Library.Char_ord" "HOL-Library.List_Lexorder"
    "HOL-Library.Product_Lexorder" "HOL-Library.Log_Nat"
begin

section \<open>Rate limiter (src/rate\_limit.py)\<close>

text \<open>
  Python floats are modelled as exact reals. The wall clock (\<^verbatim>\<open>time.time()\<close>) is an
  input: every reading the code takes is an argument of the function that takes it.
\<close>

record TokenBucket =
  capacity :: real
  tokens :: real
  refill_rate :: real
  updated_at :: real

text \<open>
  \<^verbatim>\<open>TokenBucket.consume(amount)\<close>; \<open>now\<close> is the clock reading of its first line.
  The result is the returned boolean and the mutated bucket.
\<close>

definition consume :: "TokenBucket \<Rightarrow> real \<Rightarrow> real \<Rightarrow> bool \<times> TokenBucket" where
  "consume b amount now =
     (let elapsed = now - updated_at b;
          b1 = b\<lparr>tokens := min (capacity b) (tokens b + elapsed * refill_rate b)\<rparr>;
          b2 = b1\<lparr>updated_at := now\<rparr>
      in if tokens b2 \<ge> amount then (True, b2\<lparr>tokens := tokens b2 - amount\<rparr>)
         else (False, b2))"

record RateLimiter =
  qps :: real
  burst :: real
  buckets :: "string \<rightharpoonup> TokenBucket"

text \<open>\<^verbatim>\<open>RateLimiter.__init__\<close> with its default arguments.\<close>

definition RateLimiter_init :: "real \<Rightarrow> real \<Rightarrow> RateLimiter" where
  "RateLimiter_init q b = \<lparr>qps = q, burst = b, buckets = Map.empty\<rparr>"

definition default_limiter :: RateLimiter where
  "default_limiter = RateLimiter_init (1/2) 1"

text \<open>
  \<^verbatim>\<open>RateLimiter.allow(key)\<close>. \<open>t_new\<close> is the clock reading taken when the bucket is
  created (unused when the bucket exists), \<open>t_now\<close> the reading taken inside
  \<^verbatim>\<open>consume\<close>. A bucket object is always truthy, so \<^verbatim>\<open>not bucket\<close> is the test for
  a missing key.
\<close>

definition allow :: "RateLimiter \<Rightarrow> string \<Rightarrow> real \<Rightarrow> real \<Rightarrow> bool \<times> RateLimiter" where
  "allow rl key t_new t_now =
     (let bucket = (case buckets rl key of
                      None \<Rightarrow> \<lparr>capacity = burst rl, tokens = burst rl,
                                refill_rate = qps rl, updated_at = t_new\<rparr>
                    | Some b \<Rightarrow> b);
          (ok, bucket') = consume bucket 1 t_now
      in (ok, rl\<lparr>buckets := (buckets rl)(key \<mapsto> bucket')\<rparr>))"


section \<open>Strings and normalization (src/normalization.py)\<close>

text \<open>
  A Python \<^verbatim>\<open>str\<close> is modelled as a \<^typ>\<open>string\<close> whose characters are the code points
  0 to 255. The character classes below are those of Python 3 on that range.
\<close>

text \<open>The characters matched by \<^verbatim>\<open>\s\<close> and removed by \<^verbatim>\<open>str.strip()\<close>.\<close>

definition is_space :: "char \<Rightarrow> bool" where
  "is_space c \<longleftrightarrow>
     (let n = (of_char c :: nat)
      in (9 \<le> n \<and> n \<le> 13) \<or> (28 \<le> n \<and> n \<le> 32) \<or> n = 133 \<or> n = 160)"

text \<open>\<^verbatim>\<open>str.lower()\<close>, one character at a time.\<close>

definition lower_char :: "char \<Rightarrow> char" where
  "lower_char c =
     (let n = (of_char c :: nat)
      in if (65 \<le> n \<and> n \<le> 90) \<or> (192 \<le> n \<and> n \<le> 222 \<and> n \<noteq> 215)
         then char_of (n + 32) else c)"

definition lower :: "string \<Rightarrow> string" where
  "lower s = map lower_char s"

text \<open>\<^verbatim>\<open>str.strip()\<close> and \<^verbatim>\<open>str.rstrip("/")\<close>.\<close>

definition strip :: "string \<Rightarrow> string" where
  "strip s = rev (dropWhile is_space (rev (dropWhile is_space s)))"

definition rstrip_slash :: "string \<Rightarrow> string" where
  "rstrip_slash s = rev (dropWhile (\<lambda>c. c = CHR ''/'') (rev s))"

text \<open>\<^verbatim>\<open>word in title\<close>: the substring test.\<close>

fun str_contains :: "string \<Rightarrow> string \<Rightarrow> bool" where
  "str_contains w [] = (w = [])"
| "str_contains w (c # cs) = (take (length w) (c # cs) = w \<or> str_contains w cs)"

text \<open>\<^verbatim>\<open>sep.join(parts)\<close>.\<close>

fun join :: "string \<Rightarrow> string list \<Rightarrow> string" where
  "join sep [] = []"
| "join sep [p] = p"
| "join sep (p # q # ps) = p @ sep @ join sep (q # ps)"

text \<open>
  \<^verbatim>\<open>WHITESPACE_RE.sub(" ", value)\<close> with \<^verbatim>\<open>WHITESPACE_RE = \s+\<close>: every maximal run of
  white space becomes one blank.
\<close>

function collapse_ws :: "string \<Rightarrow> string" where
  "collapse_ws [] = []"
| "collapse_ws (c # cs) =
     (if is_space c then CHR '' '' # collapse_ws (dropWhile is_space cs)
      else c # collapse_ws cs)"
  by pat_completeness auto
termination
  by (relation "measure length") (auto simp: length_dropWhile_le less_Suc_eq_le)

definition normalize_whitespace :: "string \<Rightarrow> string" where
  "normalize_whitespace v = strip (collapse_ws v)"

text \<open>
  \<^verbatim>\<open>HTML_TAG_RE.sub("", value)\<close> with \<^verbatim>\<open>HTML_TAG_RE = <[^>]+>\<close>. Scanning from the left, a
  \<^verbatim>\<open><\<close> starts a match when it is followed by at least one character other than
  \<^verbatim>\<open>>\<close> and then, after the longest run of such characters, by a \<^verbatim>\<open>>\<close>; the match is
  removed and the scan goes on after it.
\<close>

function strip_html :: "string \<Rightarrow> string" where
  "strip_html [] = []"
| "strip_html (c # cs) =
     (if c = CHR ''<'' \<and> takeWhile (\<lambda>x. x \<noteq> CHR ''>'') cs \<noteq> []
           \<and> dropWhile (\<lambda>x. x \<noteq> CHR ''>'') cs \<noteq> []
      then strip_html (tl (dropWhile (\<lambda>x. x \<noteq> CHR ''>'') cs))
      else c # strip_html cs)"
  by pat_completeness auto
termination
  by (relation "measure length")
     (auto simp: less_Suc_eq_le intro!: le_trans [OF diff_le_self length_dropWhile_le])

definition normalize_title :: "string \<Rightarrow> string" where
  "normalize_title v = normalize_whitespace (strip_html v)"

text \<open>
  \<^verbatim>\<open>deterministic_hash(*parts)\<close>. The digest
  \<^verbatim>\<open>lambda s: hashlib.sha256(s.encode("utf-8")).hexdigest()\<close> belongs to the standard
  library and is the parameter \<open>sha256_hex\<close>. \<open>hash_joined\<close> is the string handed to
  it: the filter \<^verbatim>\<open>if part\<close> tests the part as given, and the parts that pass are
  stripped.
\<close>

definition hash_joined :: "string list \<Rightarrow> string" where
  "hash_joined parts = join ''|'' (map strip (filter (\<lambda>part. part \<noteq> []) parts))"

definition deterministic_hash :: "(string \<Rightarrow> string) \<Rightarrow> string list \<Rightarrow> string" where
  "deterministic_hash sha256_hex parts = sha256_hex (hash_joined parts)"

text \<open>
  The string the specification describes: every part trimmed, the non-empty ones among
  the trimmed parts kept and joined with \<^verbatim>\<open>|\<close>.
\<close>

definition spec_joined :: "string list \<Rightarrow> string" where
  "spec_joined parts = join ''|'' (filter (\<lambda>p. p \<noteq> []) (map strip parts))"

section \<open>Dedupe index (src/dedupe.py)\<close>

record DedupeIndex =
  url_hashes :: "string \<rightharpoonup> string"
  content_hashes :: "string \<rightharpoonup> string"

text \<open>
  \<^verbatim>\<open>DedupeIndex.add(url, content, title)\<close>. \<^verbatim>\<open>canonicalize_url\<close> is built on
  \<^verbatim>\<open>urllib.parse\<close> and is the parameter \<open>canon\<close> here, the digest is \<open>sha256_hex\<close>.
  The result is the returned pair and the index after the call.
\<close>

definition DedupeIndex_add ::
  "(string \<Rightarrow> string) \<Rightarrow> (string \<Rightarrow> string) \<Rightarrow> DedupeIndex \<Rightarrow> string \<Rightarrow> string \<Rightarrow> string
     \<Rightarrow> (bool \<times> string) \<times> DedupeIndex" where
  "DedupeIndex_add canon sha256_hex idx url content title' =
     (let canonical_url = canon url;
          title_key = normalize_title title';
          url_key = deterministic_hash sha256_hex [canonical_url];
          content_key = deterministic_hash sha256_hex [take 5000 content, title_key]
      in case url_hashes idx url_key of
           Some k \<Rightarrow> ((False, k), idx)
         | None \<Rightarrow>
             (case content_hashes idx content_key of
                Some k \<Rightarrow> ((False, k), idx)
              | None \<Rightarrow>
                  ((True, url_key),
                   idx\<lparr>url_hashes := (url_hashes idx)(url_key \<mapsto> url_key),
                       content_hashes := (content_hashes idx)(content_key \<mapsto> content_key)\<rparr>)))"

section \<open>Floating-point numbers (Python's \<^verbatim>\<open>float\<close>)\<close>

text \<open>
  A Python \<^verbatim>\<open>float\<close> is an IEEE 754 binary64 number. A finite one is modelled by the
  real number it stands for, and an operation gives the exact result rounded to the
  nearest binary64 number, a tie going to the one with the even significand. Infinities
  and overflow are not modelled: every magnitude below is far under \<open>2 ^ 1024\<close> (a
  similarity is at most 100, a source weight at most 2, and two datetimes differ by
  less than \<open>2 ^ 39\<close> seconds). This is the arithmetic of the scores of
  \<^verbatim>\<open>ClusterCandidate\<close> in src/confirm.py.

  \<open>round_half_even x\<close> is the integer nearest to \<open>x\<close>, the even one of the two when \<open>x\<close>
  lies half-way.
\<close>

definition round_half_even :: "real \<Rightarrow> int" where
  "round_half_even x =
     (let f = \<lfloor>x\<rfloor>; d = x - of_int f
      in if d < 1/2 then f else if d > 1/2 then f + 1 else if even f then f else f + 1)"

text \<open>
  For \<open>x \<noteq> 0\<close>, \<open>binade x\<close> is the exponent \<open>e\<close> with \<open>2 ^ e \<le> \<bar>x\<bar> < 2 ^ (e + 1)\<close>.
\<close>

definition binade :: "real \<Rightarrow> int" where
  "binade x =
     (if 1 \<le> \<bar>x\<bar> then bitlen \<lfloor>\<bar>x\<bar>\<rfloor> - 1 else - bitlen (\<lceil>1 / \<bar>x\<bar>\<rceil> - 1))"

text \<open>
  \<open>fl x\<close> is the binary64 number nearest to \<open>x\<close>: a multiple of the unit in the last of
  the 53 places of the significand, where the exponent is at least - 1022 (below it
  the numbers are subnormal and keep the unit \<open>2 ^ - 1074\<close>).
\<close>

definition fl :: "real \<Rightarrow> real" where
  "fl x =
     (if x = 0 then 0
      else (let u = 2 powi (max (binade x) (- 1022) - 52)
            in of_int (round_half_even (x / u)) * u))"

text \<open>The operators \<^verbatim>\<open>+\<close>, \<^verbatim>\<open>-\<close>, \<^verbatim>\<open>*\<close> and \<^verbatim>\<open>/\<close> (with a divisor other than 0) on floats.\<close>

definition fadd :: "real \<Rightarrow> real \<Rightarrow> real" where "fadd a b = fl (a + b)"
definition fsub :: "real \<Rightarrow> real \<Rightarrow> real" where "fsub a b = fl (a - b)"
definition fmul :: "real \<Rightarrow> real \<Rightarrow> real" where "fmul a b = fl (a * b)"
definition fdiv :: "real \<Rightarrow> real \<Rightarrow> real" where "fdiv a b = fl (a / b)"

text \<open>
  \<^verbatim>\<open>sum(xs)\<close> for floats: the additions from the left, starting from 0 (CPython before
  3.12; later versions add with a compensation, which gives the same for one term).
\<close>

definition fsum :: "real list \<Rightarrow> real" where
  "fsum xs = fold (\<lambda>x acc. fadd acc x) xs 0"

text \<open>
  \<^verbatim>\<open>round(x, 2)\<close> for a float: CPython writes the exact value of \<open>x\<close> with two decimal
  places, correctly rounded with a tie to the even digit, and reads the decimal back as
  the nearest float.
\<close>

definition round2 :: "real \<Rightarrow> real" where
  "round2 x = fl (of_int (round_half_even (x * 100)) / 100)"

text \<open>\<^verbatim>\<open>timedelta.total_seconds()\<close>, for a difference of \<open>d\<close> seconds: the nearest float.\<close>

definition total_seconds :: "real \<Rightarrow> real" where
  "total_seconds d = fl d"

section \<open>Clustering and scoring (src/confirm.py, src/schemas.py)\<close>

text \<open>
  The exceptions the modelled code can raise; \<open>NotModelled\<close> is the result of a
  library function on an input outside the part of the library that is modelled.
\<close>

datatype error = ValueError | IndexError | TypeError | AttributeError | StorageError | NotModelled

text \<open>
  A \<^verbatim>\<open>datetime\<close> is timezone-aware or naive. It is modelled by its reading in seconds
  (for an aware one the seconds from the epoch to its instant, for a naive one the
  seconds its calendar fields count from 1970-01-01 00:00) and by its kind. Two datetimes
  of one kind are ordered and subtracted as their readings are; ordering or subtracting
  a naive and an aware one raises \<^verbatim>\<open>TypeError\<close>. \<^verbatim>\<open>NewsItem\<close> accepts both kinds: the
  reading of \<^verbatim>\<open>published_at\<close> is the field \<open>published_at\<close>, and \<open>published_at_aware\<close>
  says whether it is aware. \<^verbatim>\<open>fetched_at\<close> takes part in no comparison or subtraction and
  is its reading.
\<close>

record NewsItem =
  schema_version :: string
  origin :: string
  item_id :: string
  source :: string
  url :: string
  title :: string
  summary :: "string option"
  published_at :: real
  published_at_aware :: bool
  fetched_at :: real
  content_text :: "string option"
  language :: "string option"
  hash :: string
  score_hint :: "real option"

text \<open>
  The item of \<^verbatim>\<open>test_analyze_clusters\<close> (src/tests/test\_smoke.py), with title, source
  and time of publication left open; its datetimes are aware, as in the test.
\<close>

definition test_item :: "string \<Rightarrow> string \<Rightarrow> real \<Rightarrow> NewsItem" where
  "test_item t s p =
     \<lparr>schema_version = ''1.0'', origin = ''test'', item_id = ''1'', source = s,
      url = ''https://example.com/a'', title = t, summary = Some ''summary'',
      published_at = p, published_at_aware = True, fetched_at = p, content_text = Some ''body'',
      language = Some ''en'', hash = ''abc'', score_hint = Some 1\<rparr>"

text \<open>The output model \<^verbatim>\<open>NewsCluster\<close>; its fields carry the prefix \<open>nc_\<close>.\<close>

record NewsCluster =
  nc_origin :: string
  nc_cluster_id :: string
  nc_canonical_title :: string
  nc_summary :: "string option"
  nc_score :: real
  nc_source_count :: nat
  nc_entities :: "string list"
  nc_first_seen :: real
  nc_last_seen :: real
  nc_sentiment_hint :: "string option"
  nc_links :: "string list"

text \<open>The float constants \<^verbatim>\<open>0.6\<close>, \<^verbatim>\<open>0.3\<close> and \<^verbatim>\<open>0.1\<close>: the floats nearest to the decimals.\<close>

definition SIMILARITY_WEIGHT :: real where "SIMILARITY_WEIGHT = fl (6/10)"
definition SOURCE_WEIGHT :: real where "SOURCE_WEIGHT = fl (3/10)"
definition FRESHNESS_WEIGHT :: real where "FRESHNESS_WEIGHT = fl (1/10)"

definition SOURCE_SCORES :: "(string \<times> real) list" where
  "SOURCE_SCORES =
     [(''coindesk'', 1), (''theblock'', 1), (''blockworks'', 1), (''cryptopanic'', 2),
      (''messari'', 1)]"

text \<open>\<^verbatim>\<open>SOURCE_SCORES.get(source, 0.5)\<close>.\<close>

definition source_weight :: "string \<Rightarrow> real" where
  "source_weight s = (case map_of SOURCE_SCORES s of Some w \<Rightarrow> w | None \<Rightarrow> 1/2)"

text \<open>
  \<^verbatim>\<open>ENTITY_PATTERNS\<close>: each label with the lower-case words its pattern stands for,
  every one of them between two \<^verbatim>\<open>\b\<close>, matched ignoring case.
\<close>

definition ENTITY_PATTERNS :: "(string \<times> string list) list" where
  "ENTITY_PATTERNS =
     [(''BTC'', [''btc'']), (''ETH'', [''eth'']), (''SOL'', [''sol'']), (''ETF'', [''etf'']),
      (''SEC'', [''sec'']), (''HACK'', [''hacked'', ''hacking'', ''hack'']),
      (''FUNDING'', [''funding rate''])]"

text \<open>The characters matched by \<^verbatim>\<open>\w\<close>.\<close>

definition is_word_char :: "char \<Rightarrow> bool" where
  "is_word_char c \<longleftrightarrow>
     (let n = (of_char c :: nat)
      in (48 \<le> n \<and> n \<le> 57) \<or> (65 \<le> n \<and> n \<le> 90) \<or> (97 \<le> n \<and> n \<le> 122) \<or> n = 95
         \<or> n \<in> set [170, 178, 179, 181, 185, 186, 188, 189, 190]
         \<or> (192 \<le> n \<and> n \<noteq> 215 \<and> n \<noteq> 247))"

text \<open>
  \<^verbatim>\<open>pattern.search(text)\<close> for the pattern \<^verbatim>\<open>\bw\b\<close> with \<^verbatim>\<open>re.IGNORECASE\<close>; \<open>prev\<close> says
  whether the character before the current position is a word character.
\<close>

fun search_word :: "string \<Rightarrow> bool \<Rightarrow> string \<Rightarrow> bool" where
  "search_word w prev [] = False"
| "search_word w prev (c # cs) =
     ((\<not> prev \<and> take (length w) (lower (c # cs)) = w
         \<and> (case drop (length w) (c # cs) of [] \<Rightarrow> True | d # _ \<Rightarrow> \<not> is_word_char d))
      \<or> search_word w (is_word_char c) cs)"

record ClusterCandidate =
  canonical_title :: string
  items :: "NewsItem list"
  similarities :: "real list"

text \<open>\<^verbatim>\<open>max(xs, default=d)\<close>.\<close>

definition max_default :: "real list \<Rightarrow> real \<Rightarrow> real" where
  "max_default xs d = (case xs of [] \<Rightarrow> d | x # r \<Rightarrow> fold max r x)"

text \<open>\<^verbatim>\<open>ClusterCandidate.add(item, similarity)\<close>.\<close>

definition ClusterCandidate_add :: "ClusterCandidate \<Rightarrow> NewsItem \<Rightarrow> real \<Rightarrow> ClusterCandidate" where
  "ClusterCandidate_add c item similarity =
     (let c1 = c\<lparr>items := items c @ [item]\<rparr>;
          c2 = c1\<lparr>similarities := similarities c1 @ [similarity]\<rparr>
      in if similarity > max_default (butlast (similarities c2)) 0
         then c2\<lparr>canonical_title := title item\<rparr> else c2)"

text \<open>
  The properties \<^verbatim>\<open>first_seen\<close> and \<^verbatim>\<open>last_seen\<close>, as readings: \<^verbatim>\<open>min\<close> and \<^verbatim>\<open>max\<close> of
  an empty sequence raise \<^verbatim>\<open>ValueError\<close>. The members of a cluster that \<^verbatim>\<open>cluster_news\<close>
  builds are of one kind (\<open>sorted_items\<close> below).
\<close>

definition first_seen :: "ClusterCandidate \<Rightarrow> error + real" where
  "first_seen c =
     (case map published_at (items c) of [] \<Rightarrow> Inl ValueError | t # ts \<Rightarrow> Inr (fold min ts t))"

definition last_seen :: "ClusterCandidate \<Rightarrow> error + real" where
  "last_seen c =
     (case map published_at (items c) of [] \<Rightarrow> Inl ValueError | t # ts \<Rightarrow> Inr (fold max ts t))"

definition similarity_score :: "ClusterCandidate \<Rightarrow> real" where
  "similarity_score c =
     (if similarities c = [] then 0
      else fdiv (fsum (similarities c)) (real (length (similarities c))))"

definition source_score :: "ClusterCandidate \<Rightarrow> real" where
  "source_score c = fsum (map (\<lambda>item. source_weight (source item)) (items c))"

text \<open>
  The property \<^verbatim>\<open>freshness_score\<close>; \<open>now\<close> is the reading of its clock,
  \<^verbatim>\<open>datetime.now(timezone.utc)\<close>, an aware datetime. With a member whose
  \<^verbatim>\<open>published_at\<close> is naive the property raises \<^verbatim>\<open>TypeError\<close>: in \<^verbatim>\<open>min\<close> when the
  cluster has an aware member too, and in the subtraction from \<open>now\<close> when it has none.
\<close>

definition freshness_score :: "ClusterCandidate \<Rightarrow> real \<Rightarrow> error + real" where
  "freshness_score c now =
     (case first_seen c of
        Inl e \<Rightarrow> Inl e
      | Inr fs \<Rightarrow>
          if \<not> list_all published_at_aware (items c) then Inl TypeError
          else
            (let age_minutes = fdiv (total_seconds (now - fs)) 60;
                 freshness = max 0 (fsub 1 (fdiv age_minutes 1440))
             in Inr (fmul freshness 100)))"

definition detect_entities :: "ClusterCandidate \<Rightarrow> string list" where
  "detect_entities c =
     (let combined_text = join '' '' (map title (items c))
      in fold (\<lambda>(label, ws) entities.
                 if list_ex (\<lambda>w. search_word w False combined_text) ws \<and> label \<notin> set entities
                 then entities @ [label] else entities)
           ENTITY_PATTERNS [])"

text \<open>\<^verbatim>\<open>_sentiment_hint(items)\<close>, the loop body first.\<close>

definition negative_keywords :: "string list" where
  "negative_keywords = [''hack'', ''lawsuit'', ''layoff'', ''bankrupt'']"

definition positive_keywords :: "string list" where
  "positive_keywords = [''launch'', ''growth'', ''profit'', ''surge'']"

definition sentiment_step :: "NewsItem \<Rightarrow> int \<Rightarrow> int" where
  "sentiment_step item score =
     (let t = lower (title item);
          s1 = (if list_ex (\<lambda>word. str_contains word t) positive_keywords
                then score + 1 else score)
      in if list_ex (\<lambda>word. str_contains word t) negative_keywords then s1 - 1 else s1)"

definition sentiment_hint :: "NewsItem list \<Rightarrow> string option" where
  "sentiment_hint its =
     (let score = fold sentiment_step its 0
      in if score > 1 then Some ''positive''
         else if score < - 1 then Some ''negative'' else None)"

text \<open>
  The counter as the specification words it: one step for every keyword that matches a
  title.
\<close>

definition keyword_matches :: "string list \<Rightarrow> NewsItem \<Rightarrow> int" where
  "keyword_matches kws item =
     int (length (filter (\<lambda>word. str_contains word (lower (title item))) kws))"

definition sentiment_hint_per_match :: "NewsItem list \<Rightarrow> string option" where
  "sentiment_hint_per_match its =
     (let score = (\<Sum>item\<leftarrow>its. keyword_matches positive_keywords item
                              - keyword_matches negative_keywords item)
      in if score > 1 then Some ''positive''
         else if score < - 1 then Some ''negative'' else None)"

text \<open>Whether the lower-cased title of an item contains one of the keywords.\<close>

definition title_has :: "string list \<Rightarrow> NewsItem \<Rightarrow> bool" where
  "title_has kws item = list_ex (\<lambda>word. str_contains word (lower (title item))) kws"

text \<open>
  \<^verbatim>\<open>ClusterCandidate.to_schema(origin)\<close>; \<open>now\<close> is the clock reading of
  \<^verbatim>\<open>freshness_score\<close>. With no member the first failing expression is
  \<^verbatim>\<open>freshness_score\<close>.
\<close>

definition to_schema :: "ClusterCandidate \<Rightarrow> string \<Rightarrow> real \<Rightarrow> error + NewsCluster" where
  "to_schema c origin' now =
     (let similarity_component =
            fmul (fmul (fdiv (similarity_score c) 100) 100) SIMILARITY_WEIGHT;
          source_component = fmul (fmul (source_score c) 10) SOURCE_WEIGHT
      in case freshness_score c now of
           Inl e \<Rightarrow> Inl e
         | Inr fresh \<Rightarrow>
             (let freshness_component = fmul fresh FRESHNESS_WEIGHT;
                  score = fadd (fadd similarity_component source_component)
                            freshness_component;
                  sentiment = sentiment_hint (items c)
              in case (items c, first_seen c, last_seen c) of
                   (i0 # _, Inr fs, Inr ls) \<Rightarrow>
                     Inr \<lparr>nc_origin = origin',
                          nc_cluster_id = ''cluster-'' @ take 12 (hash i0),
                          nc_canonical_title = canonical_title c,
                          nc_summary = summary i0,
                          nc_score = round2 score,
                          nc_source_count = length (remdups (map source (items c))),
                          nc_entities = detect_entities c,
                          nc_first_seen = fs,
                          nc_last_seen = ls,
                          nc_sentiment_hint = sentiment,
                          nc_links = map url (items c)\<rparr>
                 | ([], _, _) \<Rightarrow> Inl IndexError
                 | (_, _, _) \<Rightarrow> Inl ValueError))"

text \<open>
  The inner loop of \<^verbatim>\<open>cluster_news\<close> over the open clusters, for one item with
  normalized title \<open>item_title\<close>. \<open>ratio\<close> is \<^verbatim>\<open>fuzz.token_set_ratio\<close> of the rapidfuzz
  library. The result is \<open>None\<close> when the loop ends with \<^verbatim>\<open>matched\<close> false, and the
  updated list of clusters when it leaves through \<^verbatim>\<open>break\<close>.
\<close>

fun scan_clusters ::
  "(string \<Rightarrow> string \<Rightarrow> real) \<Rightarrow> int \<Rightarrow> real \<Rightarrow> NewsItem \<Rightarrow> string \<Rightarrow> ClusterCandidate list
     \<Rightarrow> error + ClusterCandidate list option" where
  "scan_clusters ratio window_minutes similarity_threshold item item_title [] = Inr None"
| "scan_clusters ratio window_minutes similarity_threshold item item_title (cluster # rest) =
     (case first_seen cluster of
        Inl e \<Rightarrow> Inl e
      | Inr fs \<Rightarrow>
          (if \<bar>published_at item - fs\<bar> > real_of_int (window_minutes * 60)
           then map_sum id (map_option ((#) cluster))
                  (scan_clusters ratio window_minutes similarity_threshold item item_title rest)
           else
             (let similarity = ratio item_title (normalize_title (canonical_title cluster))
              in if similarity / 100 \<ge> similarity_threshold
                 then Inr (Some (ClusterCandidate_add cluster item similarity # rest))
                 else map_sum id (map_option ((#) cluster))
                        (scan_clusters ratio window_minutes similarity_threshold item
                           item_title rest))))"

text \<open>One round of the outer loop.\<close>

definition place_item ::
  "(string \<Rightarrow> string \<Rightarrow> real) \<Rightarrow> int \<Rightarrow> real \<Rightarrow> ClusterCandidate list \<Rightarrow> NewsItem
     \<Rightarrow> error + ClusterCandidate list" where
  "place_item ratio window_minutes similarity_threshold clusters item =
     (case scan_clusters ratio window_minutes similarity_threshold item
             (normalize_title (title item)) clusters of
        Inl e \<Rightarrow> Inl e
      | Inr (Some clusters') \<Rightarrow> Inr clusters'
      | Inr None \<Rightarrow>
          Inr (clusters @
               [ClusterCandidate_add
                  \<lparr>canonical_title = title item, items = [], similarities = []\<rparr> item 100]))"

fun place_all ::
  "(string \<Rightarrow> string \<Rightarrow> real) \<Rightarrow> int \<Rightarrow> real \<Rightarrow> ClusterCandidate list \<Rightarrow> NewsItem list
     \<Rightarrow> error + ClusterCandidate list" where
  "place_all ratio window_minutes similarity_threshold clusters [] = Inr clusters"
| "place_all ratio window_minutes similarity_threshold clusters (item # rest) =
     (case place_item ratio window_minutes similarity_threshold clusters item of
        Inl e \<Rightarrow> Inl e
      | Inr clusters' \<Rightarrow> place_all ratio window_minutes similarity_threshold clusters' rest)"

text \<open>
  \<^verbatim>\<open>sorted(items, key=lambda item: item.published_at)\<close>. The sort is stable. It compares
  the datetimes until the order of the whole list is decided, so a list that holds a
  naive and an aware datetime meets a comparison of the two kinds and the call raises
  \<^verbatim>\<open>TypeError\<close>. The loop is therefore reached with items of one kind only, whose
  datetimes are subtracted as their readings are.
\<close>

definition sorted_items :: "NewsItem list \<Rightarrow> error + NewsItem list" where
  "sorted_items its =
     (if list_ex published_at_aware its \<and> list_ex (\<lambda>item. \<not> published_at_aware item) its
      then Inl TypeError
      else Inr (sort_key published_at its))"

text \<open>The clusters when the outer loop is over.\<close>

definition cluster_candidates ::
  "(string \<Rightarrow> string \<Rightarrow> real) \<Rightarrow> NewsItem list \<Rightarrow> int \<Rightarrow> real \<Rightarrow> error + ClusterCandidate list" where
  "cluster_candidates ratio its window_minutes similarity_threshold =
     (case sorted_items its of
        Inl e \<Rightarrow> Inl e
      | Inr sorted_its \<Rightarrow> place_all ratio window_minutes similarity_threshold [] sorted_its)"

text \<open>
  The final comprehension: the cluster at position \<open>i\<close> is finalized with the clock
  reading \<open>clock i\<close>.
\<close>

fun to_schema_all ::
  "(nat \<Rightarrow> real) \<Rightarrow> string \<Rightarrow> nat \<Rightarrow> ClusterCandidate list \<Rightarrow> error + NewsCluster list" where
  "to_schema_all clock origin' i [] = Inr []"
| "to_schema_all clock origin' i (c # cs) =
     (case to_schema c origin' (clock i) of
        Inl e \<Rightarrow> Inl e
      | Inr n \<Rightarrow>
          (case to_schema_all clock origin' (Suc i) cs of
             Inl e \<Rightarrow> Inl e
           | Inr ns \<Rightarrow> Inr (n # ns)))"

definition cluster_news ::
  "(string \<Rightarrow> string \<Rightarrow> real) \<Rightarrow> (nat \<Rightarrow> real) \<Rightarrow> NewsItem list \<Rightarrow> int \<Rightarrow> real \<Rightarrow> string
     \<Rightarrow> error + NewsCluster list" where
  "cluster_news ratio clock its window_minutes similarity_threshold origin' =
     (case cluster_candidates ratio its window_minutes similarity_threshold of
        Inl e \<Rightarrow> Inl e
      | Inr clusters \<Rightarrow> to_schema_all clock origin' 0 clusters)"

text \<open>
  The test that attaches an item to a cluster: the window test passes and the
  similarity, on the scale 0 to 1, reaches the threshold.
\<close>

definition accepts ::
  "(string \<Rightarrow> string \<Rightarrow> real) \<Rightarrow> int \<Rightarrow> real \<Rightarrow> NewsItem \<Rightarrow> ClusterCandidate \<Rightarrow> bool" where
  "accepts ratio window_minutes similarity_threshold item c =
     (case first_seen c of
        Inl e \<Rightarrow> False
      | Inr fs \<Rightarrow>
          \<bar>published_at item - fs\<bar> \<le> real_of_int (window_minutes * 60)
          \<and> ratio (normalize_title (title item)) (normalize_title (canonical_title c)) / 100
              \<ge> similarity_threshold)"

text \<open>
  What holds of every open cluster: it has a member, one similarity is recorded for each
  member, the value 100 is among them, and the representative title is the title of the
  first member.
\<close>

definition cluster_inv :: "ClusterCandidate \<Rightarrow> bool" where
  "cluster_inv c \<longleftrightarrow>
     items c \<noteq> [] \<and> length (similarities c) = length (items c)
     \<and> 100 \<in> set (similarities c) \<and> canonical_title c = title (hd (items c))"

text \<open>
  The score of a cluster with one member as the specification words it, the formula
  taken over the real numbers and rounded to the nearest multiple of 1/100: the
  similarity score is 100, \<open>sourceScore\<close> is the weight of the source, and the freshness
  score comes from the age in minutes.
\<close>

definition score_exact :: "real \<Rightarrow> real \<Rightarrow> real" where
  "score_exact sourceScore ageMinutes =
     real_of_int (round_half_even
       (((100 / 100 * 100) * (6/10) + (sourceScore * 10) * (3/10)
         + (max 0 (1 - ageMinutes / 1440) * 100) * (1/10)) * 100)) / 100"

section \<open>Retention sweep (api/admin\_cleanup.py, src/storage.py)\<close>

text \<open>
  The JSON values of the two fields the sweep reads, and a stored record as the list of
  its fields.
\<close>

datatype jvalue = JNull | JBool bool | JInt int | JStr string

type_synonym json_record = "(string \<times> jvalue) list"

text \<open>Truth value of a JSON value, as \<^verbatim>\<open>not created_at\<close> tests it.\<close>

fun truthy :: "jvalue \<Rightarrow> bool" where
  "truthy JNull = False"
| "truthy (JBool b) = b"
| "truthy (JInt n) = (n \<noteq> 0)"
| "truthy (JStr s) = (s \<noteq> [])"

text \<open>
  The interface \<^verbatim>\<open>StorageBackend\<close> over a storage state \<open>'s\<close>. Every operation can
  raise; \<^verbatim>\<open>delete\<close> changes the state.
\<close>

record 's StorageBackend =
  storage_list :: "'s \<Rightarrow> string \<Rightarrow> nat \<Rightarrow> error + string list"
  get_json :: "'s \<Rightarrow> string \<Rightarrow> error + json_record option"
  delete :: "'s \<Rightarrow> string \<Rightarrow> error + 's"

definition PREFIXES :: "string list" where
  "PREFIXES = [''news/raw'', ''news/clustered'', ''market'', ''logs'']"

text \<open>
  \<^verbatim>\<open>_parse_timestamp(value)\<close>. \<open>fromiso\<close> is \<^verbatim>\<open>datetime.fromisoformat\<close>, giving the seconds
  since the epoch or the exception it raises. A value that is not a string has no
  \<^verbatim>\<open>endswith\<close>.
\<close>

definition parse_timestamp :: "(string \<Rightarrow> error + real) \<Rightarrow> jvalue \<Rightarrow> error + real" where
  "parse_timestamp fromiso v =
     (case v of
        JStr s \<Rightarrow> fromiso (if s \<noteq> [] \<and> last s = CHR ''Z'' then butlast s @ ''+00:00'' else s)
      | _ \<Rightarrow> Inl AttributeError)"

text \<open>\<^verbatim>\<open>age_days >= ttl_days\<close>: a boolean counts as 0 or 1, other values raise.\<close>

definition age_reached :: "int \<Rightarrow> jvalue \<Rightarrow> error + bool" where
  "age_reached age_days ttl =
     (case ttl of
        JInt n \<Rightarrow> Inr (age_days \<ge> n)
      | JBool b \<Rightarrow> Inr (age_days \<ge> (if b then 1 else 0))
      | _ \<Rightarrow> Inl TypeError)"

text \<open>
  The body of the inner loop of \<^verbatim>\<open>cleanup\<close> for one key. The state of the loop is the
  storage, the list \<^verbatim>\<open>deleted\<close> and the counter \<^verbatim>\<open>kept\<close>.
\<close>

definition sweep_key ::
  "'s StorageBackend \<Rightarrow> (string \<Rightarrow> error + real) \<Rightarrow> real \<Rightarrow> bool \<Rightarrow> string
     \<Rightarrow> 's \<times> string list \<times> int \<Rightarrow> error + 's \<times> string list \<times> int" where
  "sweep_key storage fromiso now dry_run key state =
     (case state of (st, deleted, kept) \<Rightarrow>
        (case get_json storage st key of
           Inl e \<Rightarrow> Inl e
         | Inr None \<Rightarrow> Inr (st, deleted, kept)
         | Inr (Some []) \<Rightarrow> Inr (st, deleted, kept)
         | Inr (Some rcd) \<Rightarrow>
             (let created_at = (case map_of rcd ''created_at'' of
                                  None \<Rightarrow> JNull | Some v \<Rightarrow> v);
                  ttl_days = (case map_of rcd ''ttl_days'' of
                                None \<Rightarrow> JInt 14 | Some v \<Rightarrow> v)
              in if \<not> truthy created_at then Inr (st, deleted, kept + 1)
                 else
                   (case parse_timestamp fromiso created_at of
                      Inl e \<Rightarrow> Inl e
                    | Inr created \<Rightarrow>
                        (let age_days = \<lfloor>(now - created) / 86400\<rfloor>
                         in case age_reached age_days ttl_days of
                              Inl e \<Rightarrow> Inl e
                            | Inr True \<Rightarrow>
                                (if \<not> dry_run
                                 then (case delete storage st key of
                                         Inl e \<Rightarrow> Inl e
                                       | Inr st' \<Rightarrow> Inr (st', deleted @ [key], kept))
                                 else Inr (st, deleted @ [key], kept))
                            | Inr False \<Rightarrow> Inr (st, deleted, kept + 1))))))"

text \<open>The inner loop over the keys of one prefix, and the outer loop over the prefixes.\<close>

fun sweep_keys ::
  "'s StorageBackend \<Rightarrow> (string \<Rightarrow> error + real) \<Rightarrow> real \<Rightarrow> bool \<Rightarrow> string list
     \<Rightarrow> 's \<times> string list \<times> int \<Rightarrow> error + 's \<times> string list \<times> int" where
  "sweep_keys storage fromiso now dry_run [] state = Inr state"
| "sweep_keys storage fromiso now dry_run (key # keys) state =
     (case sweep_key storage fromiso now dry_run key state of
        Inl e \<Rightarrow> Inl e
      | Inr state' \<Rightarrow> sweep_keys storage fromiso now dry_run keys state')"

fun sweep_prefixes ::
  "'s StorageBackend \<Rightarrow> (string \<Rightarrow> error + real) \<Rightarrow> real \<Rightarrow> bool \<Rightarrow> string list
     \<Rightarrow> 's \<times> string list \<times> int \<Rightarrow> error + 's \<times> string list \<times> int" where
  "sweep_prefixes storage fromiso now dry_run [] state = Inr state"
| "sweep_prefixes storage fromiso now dry_run (prefix # prefixes) state =
     (case storage_list storage (fst state) prefix 1000 of
        Inl e \<Rightarrow> Inl e
      | Inr keys \<Rightarrow>
          (case sweep_keys storage fromiso now dry_run keys state of
             Inl e \<Rightarrow> Inl e
           | Inr state' \<Rightarrow> sweep_prefixes storage fromiso now dry_run prefixes state'))"

record CleanupResponse =
  deleted :: "string list"
  kept :: int

text \<open>
  \<^verbatim>\<open>cleanup(payload)\<close> for a payload with the given \<^verbatim>\<open>dry_run\<close>; \<open>now\<close> is its clock
  reading. The result is the response and the storage after the call, or the exception
  that leaves the function.
\<close>

definition cleanup ::
  "'s StorageBackend \<Rightarrow> (string \<Rightarrow> error + real) \<Rightarrow> real \<Rightarrow> bool \<Rightarrow> 's
     \<Rightarrow> error + CleanupResponse \<times> 's" where
  "cleanup storage fromiso now dry_run st =
     (case sweep_prefixes storage fromiso now dry_run PREFIXES (st, [], 0) of
        Inl e \<Rightarrow> Inl e
      | Inr (st', deleted', kept') \<Rightarrow> Inr (\<lparr>deleted = deleted', kept = kept'\<rparr>, st'))"

text \<open>
  A storage for running the sweep: the records in a list, \<^verbatim>\<open>list\<close> giving the keys that
  start with the prefix, and \<^verbatim>\<open>delete\<close> failing for the keys in \<open>broken\<close>, as a remote
  store does that answers the request with an error status.
\<close>

definition list_store :: "string list \<Rightarrow> (string \<times> json_record) list StorageBackend" where
  "list_store broken =
     \<lparr>storage_list = (\<lambda>st prefix limit.
        Inr (take limit (filter (\<lambda>k. take (length prefix) k = prefix) (map fst st)))),
      get_json = (\<lambda>st key. Inr (map_of st key)),
      delete = (\<lambda>st key. if key \<in> set broken then Inl StorageError
                          else Inr (filter (\<lambda>(k, r). k \<noteq> key) st))\<rparr>"

text \<open>Two records written twenty days before the time 1728000 (in seconds), and the one timestamp they carry.\<close>

definition old_records :: "(string \<times> json_record) list" where
  "old_records =
     [(''news/raw/coindesk/19700101/a.json'',
         [(''created_at'', JStr ''1970-01-01T00:00:00+00:00''), (''ttl_days'', JInt 14)]),
      (''news/raw/coindesk/19700101/b.json'',
         [(''created_at'', JStr ''1970-01-01T00:00:00+00:00''), (''ttl_days'', JInt 14)])]"

definition iso_epoch :: "string \<Rightarrow> error + real" where
  "iso_epoch s = (if s = ''1970-01-01T00:00:00+00:00'' then Inr 0 else Inl ValueError)"

section \<open>URL canonicalization (src/normalization.py, urllib.parse)\<close>

text \<open>
  \<^verbatim>\<open>canonicalize_url\<close> is a composition of four functions of the standard library
  module \<^verbatim>\<open>urllib.parse\<close>. They are modelled here after the module's source in
  CPython 3.11.10, on strings of the code points 0 to 255. Two parts of the module are
  left out, and the model answers \<open>NotModelled\<close> there: the validation of a bracketed
  (IPv6) host, and the decoding of percent escapes in a query.
\<close>

definition uses_netloc :: "string list" where
  "uses_netloc =
     ['''', ''ftp'', ''http'', ''gopher'', ''nntp'', ''telnet'', ''imap'', ''wais'', ''file'',
      ''mms'', ''https'', ''shttp'', ''snews'', ''prospero'', ''rtsp'', ''rtsps'', ''rtspu'',
      ''rsync'',
      ''svn'', ''svn+ssh'', ''sftp'', ''nfs'', ''git'', ''git+ssh'', ''ws'', ''wss'']"

definition uses_params :: "string list" where
  "uses_params =
     ['''', ''ftp'', ''hdl'', ''prospero'', ''http'', ''imap'', ''https'', ''shttp'', ''rtsp'',
      ''rtsps'', ''rtspu'', ''sip'', ''sips'', ''mms'', ''sftp'', ''tel'']"

definition scheme_chars :: string where
  "scheme_chars = ''abcdefghijklmnopqrstuvwxyzABCDEFGHIJKLMNOPQRSTUVWXYZ0123456789+-.''"

definition ALWAYS_SAFE :: string where
  "ALWAYS_SAFE = ''ABCDEFGHIJKLMNOPQRSTUVWXYZabcdefghijklmnopqrstuvwxyz0123456789_.-~''"

text \<open>\<^verbatim>\<open>_WHATWG_C0_CONTROL_OR_SPACE\<close>, and \<^verbatim>\<open>c.isascii() and c.isalpha()\<close>.\<close>

definition c0_control_or_space :: "char \<Rightarrow> bool" where
  "c0_control_or_space c \<longleftrightarrow> (of_char c :: nat) \<le> 32"

definition is_ascii_alpha :: "char \<Rightarrow> bool" where
  "is_ascii_alpha c \<longleftrightarrow>
     (let n = (of_char c :: nat) in (65 \<le> n \<and> n \<le> 90) \<or> (97 \<le> n \<and> n \<le> 122))"

text \<open>
  The text before the first occurrence of a character (all of it if there is none) and
  the text after it (empty if there is none).
\<close>

definition before :: "char \<Rightarrow> string \<Rightarrow> string" where
  "before c s = takeWhile (\<lambda>x. x \<noteq> c) s"

definition after :: "char \<Rightarrow> string \<Rightarrow> string" where
  "after c s = tl (dropWhile (\<lambda>x. x \<noteq> c) s)"

text \<open>
  \<^verbatim>\<open>urlsplit(url)\<close>: scheme, netloc, path, query and fragment. A netloc with one square
  bracket only raises \<^verbatim>\<open>ValueError\<close>.
\<close>

definition urlsplit :: "string \<Rightarrow> error + string \<times> string \<times> string \<times> string \<times> string" where
  "urlsplit url0 =
     (let url1 = filter (\<lambda>c. c \<notin> set [CHR 0x09, CHR 0x0D, CHR 0x0A])
                   (dropWhile c0_control_or_space url0);
          has_scheme = (CHR '':'' \<in> set url1 \<and> before CHR '':'' url1 \<noteq> []
                        \<and> is_ascii_alpha (hd url1)
                        \<and> list_all (\<lambda>c. c \<in> set scheme_chars) (before CHR '':'' url1));
          scheme' = (if has_scheme then lower (before CHR '':'' url1) else []);
          url2 = (if has_scheme then after CHR '':'' url1 else url1);
          has_netloc = (take 2 url2 = ''//'');
          netloc' = (if has_netloc
                     then takeWhile (\<lambda>c. c \<notin> set ''/?#'') (drop 2 url2) else []);
          url3 = (if has_netloc
                  then dropWhile (\<lambda>c. c \<notin> set ''/?#'') (drop 2 url2) else url2);
          fragment' = after CHR ''#'' url3;
          url4 = before CHR ''#'' url3;
          query' = after CHR ''?'' url4;
          url5 = before CHR ''?'' url4
      in if (CHR ''['' \<in> set netloc') \<noteq> (CHR '']'' \<in> set netloc') then Inl ValueError
         else if CHR ''['' \<in> set netloc' then Inl NotModelled
         else Inr (scheme', netloc', url5, query', fragment'))"

text \<open>
  \<^verbatim>\<open>_splitparams(url)\<close>: the parameters are looked for in the last segment of the path
  only, the text after the last \<^verbatim>\<open>/\<close>.
\<close>

definition splitparams :: "string \<Rightarrow> string \<times> string" where
  "splitparams u =
     (if CHR ''/'' \<in> set u
      then (let seg = rev (takeWhile (\<lambda>c. c \<noteq> CHR ''/'') (rev u));
                dir = take (length u - length seg) u
            in if CHR '';'' \<in> set seg
               then (dir @ before CHR '';'' seg, after CHR '';'' seg) else (u, []))
      else if CHR '';'' \<in> set u then (before CHR '';'' u, after CHR '';'' u)
      else (butlast u, u))"

record ParseResult =
  scheme :: string
  netloc :: string
  path :: string
  params :: string
  query :: string
  fragment :: string

definition urlparse :: "string \<Rightarrow> error + ParseResult" where
  "urlparse u =
     (case urlsplit u of
        Inl e \<Rightarrow> Inl e
      | Inr (scheme', netloc', url', query', fragment') \<Rightarrow>
          (let (path', params') =
                 (if scheme' \<in> set uses_params \<and> CHR '';'' \<in> set url'
                  then splitparams url' else (url', []))
           in Inr \<lparr>scheme = scheme', netloc = netloc', path = path', params = params',
                    query = query', fragment = fragment'\<rparr>))"

text \<open>\<^verbatim>\<open>urlunsplit\<close> and \<^verbatim>\<open>urlunparse\<close>.\<close>

definition urlunsplit :: "string \<times> string \<times> string \<times> string \<times> string \<Rightarrow> string" where
  "urlunsplit c =
     (case c of (scheme', netloc', url0, query', fragment') \<Rightarrow>
        (let url1 = (if netloc' \<noteq> [] \<or> (scheme' \<noteq> [] \<and> scheme' \<in> set uses_netloc)
                        \<or> take 2 url0 = ''//''
                     then ''//'' @ netloc' @
                            (if url0 \<noteq> [] \<and> take 1 url0 \<noteq> ''/'' then ''/'' @ url0 else url0)
                     else url0);
             url2 = (if scheme' \<noteq> [] then scheme' @ '':'' @ url1 else url1);
             url3 = (if query' \<noteq> [] then url2 @ ''?'' @ query' else url2)
         in if fragment' \<noteq> [] then url3 @ ''#'' @ fragment' else url3))"

definition urlunparse :: "ParseResult \<Rightarrow> string" where
  "urlunparse p =
     urlunsplit (scheme p, netloc p,
                 (if params p \<noteq> [] then path p @ '';'' @ params p else path p),
                 query p, fragment p)"

text \<open>
  \<^verbatim>\<open>parse_qsl(qs, keep_blank_values=False)\<close>: \<^verbatim>\<open>qs.split("&")\<close>, then for every field that
  is not empty and has a value, the name and the value with \<^verbatim>\<open>+\<close> replaced by a blank.
\<close>

fun split_on :: "char \<Rightarrow> string \<Rightarrow> string list" where
  "split_on c [] = [[]]"
| "split_on c (x # xs) =
     (if x = c then [] # split_on c xs
      else (case split_on c xs of y # ys \<Rightarrow> (x # y) # ys | [] \<Rightarrow> [[x]]))"

definition unquote_plus :: "string \<Rightarrow> error + string" where
  "unquote_plus s =
     (let s' = map (\<lambda>c. if c = CHR ''+'' then CHR '' '' else c) s
      in if CHR ''%'' \<in> set s' then Inl NotModelled else Inr s')"

fun parse_fields :: "string list \<Rightarrow> error + (string \<times> string) list" where
  "parse_fields [] = Inr []"
| "parse_fields (name_value # rest) =
     (if name_value \<noteq> [] \<and> after CHR ''='' name_value \<noteq> []
      then (case unquote_plus (before CHR ''='' name_value) of
              Inl e \<Rightarrow> Inl e
            | Inr name \<Rightarrow>
                (case unquote_plus (after CHR ''='' name_value) of
                   Inl e \<Rightarrow> Inl e
                 | Inr v \<Rightarrow>
                     (case parse_fields rest of
                        Inl e \<Rightarrow> Inl e
                      | Inr r \<Rightarrow> Inr ((name, v) # r))))
      else parse_fields rest)"

definition parse_qsl :: "string \<Rightarrow> error + (string \<times> string) list" where
  "parse_qsl qs = (if qs = [] then Inr [] else parse_fields (split_on CHR ''&'' qs))"

text \<open>
  \<^verbatim>\<open>urlencode(pairs)\<close> with \<^verbatim>\<open>quote_plus\<close>: the UTF-8 bytes of every character, the bytes
  outside the safe set as \<^verbatim>\<open>%XX\<close>, a blank as \<^verbatim>\<open>+\<close>.
\<close>

definition utf8 :: "char \<Rightarrow> nat list" where
  "utf8 c = (let n = of_char c in if n < 128 then [n] else [192 + n div 64, 128 + n mod 64])"

definition hex_digit :: "nat \<Rightarrow> char" where
  "hex_digit d = ''0123456789ABCDEF'' ! d"

definition quote_byte :: "string \<Rightarrow> nat \<Rightarrow> string" where
  "quote_byte safe b =
     (if b < 128 \<and> char_of b \<in> set (ALWAYS_SAFE @ safe) then [char_of b]
      else [CHR ''%'', hex_digit (b div 16), hex_digit (b mod 16)])"

definition quote :: "string \<Rightarrow> string \<Rightarrow> string" where
  "quote safe s = concat (map (quote_byte safe) (concat (map utf8 s)))"

definition quote_plus :: "string \<Rightarrow> string" where
  "quote_plus s =
     (if CHR '' '' \<notin> set s then quote [] s
      else map (\<lambda>c. if c = CHR '' '' then CHR ''+'' else c) (quote '' '' s))"

definition urlencode :: "(string \<times> string) list \<Rightarrow> string" where
  "urlencode pairs = join ''&'' (map (\<lambda>(k, v). quote_plus k @ ''='' @ quote_plus v) pairs)"

text \<open>
  \<^verbatim>\<open>canonicalize_url(url)\<close>. \<^verbatim>\<open>sorted\<close> orders the pairs by name and then by value, each
  compared code point by code point.
\<close>

definition canonicalize_url :: "string \<Rightarrow> error + string" where
  "canonicalize_url u =
     (case urlparse u of
        Inl e \<Rightarrow> Inl e
      | Inr parsed \<Rightarrow>
          (let scheme' = (if scheme parsed \<noteq> [] then scheme parsed else ''https'');
               netloc' = lower (netloc parsed);
               path' = (if rstrip_slash (path parsed) \<noteq> [] then rstrip_slash (path parsed)
                        else ''/'')
           in case parse_qsl (query parsed) of
                Inl e \<Rightarrow> Inl e
              | Inr pairs \<Rightarrow>
                  (let query_pairs = sort pairs;
                       query' = urlencode query_pairs
                   in Inr (urlunparse \<lparr>scheme = scheme', netloc = netloc', path = path',
                             params = [], query = query', fragment = []\<rparr>))))"

section \<open>Rate limiter: results\<close>


text \<open>
  C5. A limiter with capacity 1.0 and refill rate 0.5 tokens per second and no bucket for
  the key: the first call returns true (the clock does not run backwards between the
  creation of the bucket and its first use), a second call made less than 2 seconds
  later returns false, and a call made at least 2 seconds after that one returns true.
\<close>

theorem allow_fresh_true_false_true:
  assumes "t0 \<le> t1" and "t1 \<le> t2" and "t2 < t1 + 2" and "t2 + 2 \<le> t3"
    and "allow (RateLimiter_init (1/2) 1) key t0 t1 = (r1, rl1)"
    and "allow rl1 key u2 t2 = (r2, rl2)"
    and "allow rl2 key u3 t3 = (r3, rl3)"
  shows "r1 = True \<and> r2 = False \<and> r3 = True"
proof -
  from assms(1,5) have r1: "r1" and b1: "buckets rl1 key =
      Some \<lparr>capacity = 1, tokens = 0, refill_rate = 1/2, updated_at = t1\<rparr>"
    by (auto simp: allow_def RateLimiter_init_def consume_def Let_def min_def
        split: if_splits)
  from assms(2,3,6) b1 have r2: "\<not> r2" and b2: "buckets rl2 key =
      Some \<lparr>capacity = 1, tokens = (t2 - t1) * (1/2), refill_rate = 1/2, updated_at = t2\<rparr>"
    by (auto simp: allow_def consume_def Let_def min_def split: if_splits)
  have "1 \<le> (t2 - t1) * (1/2) + (t3 - t2) * (1/2)"
    using assms(2,4) by (simp add: field_simps)
  with assms(7) b2 have r3: "r3"
    by (auto simp: allow_def consume_def Let_def min_def split: if_splits)
  from r1 r2 r3 show ?thesis by simp
qed

theorem allow_fresh_true_false_true_witness:
  "fst (allow (RateLimiter_init (1/2) 1) ''example.com'' 0 0) = True
   \<and> fst (allow (snd (allow (RateLimiter_init (1/2) 1) ''example.com'' 0 0))
            ''example.com'' 0 0) = False
   \<and> fst (allow (snd (allow (snd (allow (RateLimiter_init (1/2) 1) ''example.com'' 0 0))
            ''example.com'' 0 0)) ''example.com'' 0 2) = True"
  using allow_fresh_true_false_true [of 0 0 0 2 "''example.com''"
      "fst (allow (RateLimiter_init (1/2) 1) ''example.com'' 0 0)"
      "snd (allow (RateLimiter_init (1/2) 1) ''example.com'' 0 0)"
      0
      "fst (allow (snd (allow (RateLimiter_init (1/2) 1) ''example.com'' 0 0))
            ''example.com'' 0 0)"
      "snd (allow (snd (allow (RateLimiter_init (1/2) 1) ''example.com'' 0 0))
            ''example.com'' 0 0)"
      0
      "fst (allow (snd (allow (snd (allow (RateLimiter_init (1/2) 1) ''example.com'' 0 0))
            ''example.com'' 0 0)) ''example.com'' 0 2)"
      "snd (allow (snd (allow (snd (allow (RateLimiter_init (1/2) 1) ''example.com'' 0 0))
            ''example.com'' 0 0)) ''example.com'' 0 2)"]
  by simp




section \<open>Normalization and dedupe: results\<close>

lemma str_contains_iff: "str_contains w t \<longleftrightarrow> (\<exists>p s. t = p @ w @ s)"
proof (induction t)
  case Nil
  then show ?case by auto
next
  case (Cons c cs)
  show ?case
  proof
    assume "str_contains w (c # cs)"
    then consider "take (length w) (c # cs) = w" | "str_contains w cs" by auto
    then show "\<exists>p s. c # cs = p @ w @ s"
    proof cases
      case 1
      then have "c # cs = [] @ w @ drop (length w) (c # cs)"
        by (metis append_Nil append_take_drop_id)
      then show ?thesis by blast
    next
      case 2
      with Cons.IH obtain p s where "cs = p @ w @ s" by auto
      then have "c # cs = (c # p) @ w @ s" by simp
      then show ?thesis by blast
    qed
  next
    assume "\<exists>p s. c # cs = p @ w @ s"
    then obtain p s where eq: "c # cs = p @ w @ s" by auto
    show "str_contains w (c # cs)"
    proof (cases p)
      case Nil
      with eq have "take (length w) (c # cs) = w" by simp
      then show ?thesis by simp
    next
      case (Cons d p')
      with eq have "cs = p' @ w @ s" by simp
      with Cons.IH have "str_contains w cs" by blast
      then show ?thesis by simp
    qed
  qed
qed

lemma strip_Nil: "strip [] = []"
  by (simp add: strip_def)

text \<open>
  C8 as stated: the digest is taken of the string made by trimming every part, keeping
  the trimmed parts that are not empty and joining them. It fails for a part that is
  not empty and holds only white space: the code keeps it, and it becomes an empty
  segment, so for the parts \<^verbatim>\<open>("a", " ", "b")\<close> the digest is taken of \<^verbatim>\<open>a||b\<close> and not
  of \<^verbatim>\<open>a|b\<close>.
\<close>

theorem deterministic_hash_counterexample:
  "hash_joined [''a'', '' '', ''b''] = ''a||b''
   \<and> spec_joined [''a'', '' '', ''b''] = ''a|b''
   \<and> \<not> (\<forall>sha256_hex. deterministic_hash sha256_hex [''a'', '' '', ''b'']
                        = sha256_hex (spec_joined [''a'', '' '', ''b'']))"
proof -
  have h: "hash_joined [''a'', '' '', ''b''] = ''a||b''"
    by (simp add: hash_joined_def strip_def is_space_def)
  have s: "spec_joined [''a'', '' '', ''b''] = ''a|b''"
    by (simp add: spec_joined_def strip_def is_space_def)
  have "deterministic_hash (\<lambda>x. x) [''a'', '' '', ''b'']
          \<noteq> (\<lambda>x. x) (spec_joined [''a'', '' '', ''b''])"
    by (simp add: deterministic_hash_def h s)
  then have "\<not> (\<forall>sha256_hex. deterministic_hash sha256_hex [''a'', '' '', ''b'']
                        = sha256_hex (spec_joined [''a'', '' '', ''b'']))"
    by blast
  with h s show ?thesis by simp
qed

text \<open>
  C8, amended: for every sequence of parts in which no non-empty part holds only white
  space, the hash is the digest of the string made by trimming every part, keeping the
  non-empty ones and joining them with \<^verbatim>\<open>|\<close>. The hash is a function of the parts, so
  the same parts in the same order give the same hash.
\<close>

theorem deterministic_hash_spec:
  assumes "\<forall>p \<in> set parts. p \<noteq> [] \<longrightarrow> strip p \<noteq> []"
  shows "deterministic_hash sha256_hex parts = sha256_hex (spec_joined parts)"
proof -
  have "filter (\<lambda>p. strip p \<noteq> []) parts = filter (\<lambda>p. p \<noteq> []) parts"
    using assms by (intro filter_cong) (auto simp: strip_Nil)
  then have "filter (\<lambda>p. p \<noteq> []) (map strip parts) = map strip (filter (\<lambda>p. p \<noteq> []) parts)"
    by (simp add: filter_map comp_def)
  then show ?thesis
    by (simp add: deterministic_hash_def hash_joined_def spec_joined_def)
qed

theorem deterministic_hash_spec_witness:
  "strip ''coindesk'' \<noteq> [] \<and> strip '' Sample  title '' \<noteq> []
   \<and> spec_joined [''coindesk'', [], '' Sample  title ''] = ''coindesk|Sample  title''
   \<and> deterministic_hash (\<lambda>s. s) [''coindesk'', [], '' Sample  title '']
       = ''coindesk|Sample  title''"
proof -
  have h: "\<forall>p \<in> set [''coindesk'', [], '' Sample  title '']. p \<noteq> [] \<longrightarrow> strip p \<noteq> []"
    by (simp add: strip_def is_space_def)
  have s: "spec_joined [''coindesk'', [], '' Sample  title ''] = ''coindesk|Sample  title''"
    by (simp add: spec_joined_def strip_def is_space_def)
  from deterministic_hash_spec [OF h, of "\<lambda>s. s"] h s show ?thesis by simp
qed

text \<open>
  C10. A call of \<^verbatim>\<open>DedupeIndex.add\<close> that returns \<^verbatim>\<open>accepted = False\<close> leaves both maps
  as they were; a call that returns \<^verbatim>\<open>accepted = True\<close> found neither key present and
  adds exactly the URL key to \<^verbatim>\<open>url_hashes\<close> and the content key to
  \<^verbatim>\<open>content_hashes\<close>.
\<close>

theorem add_atomic_on_rejection:
  assumes "DedupeIndex_add canon sha256_hex idx u content t = ((accepted, k), idx')"
  shows "(\<not> accepted \<longrightarrow> url_hashes idx' = url_hashes idx
                         \<and> content_hashes idx' = content_hashes idx)
       \<and> (accepted \<longrightarrow>
            url_hashes idx (deterministic_hash sha256_hex [canon u]) = None
          \<and> content_hashes idx
              (deterministic_hash sha256_hex [take 5000 content, normalize_title t]) = None
          \<and> url_hashes idx' = (url_hashes idx)
              (deterministic_hash sha256_hex [canon u]
                 \<mapsto> deterministic_hash sha256_hex [canon u])
          \<and> content_hashes idx' = (content_hashes idx)
              (deterministic_hash sha256_hex [take 5000 content, normalize_title t]
                 \<mapsto> deterministic_hash sha256_hex [take 5000 content, normalize_title t]))"
  using assms
  by (auto simp: DedupeIndex_add_def Let_def split: option.splits)

theorem add_atomic_on_rejection_witness:
  "fst (fst (DedupeIndex_add (\<lambda>s. s) (\<lambda>s. s)
          (snd (DedupeIndex_add (\<lambda>s. s) (\<lambda>s. s)
                  \<lparr>url_hashes = Map.empty, content_hashes = Map.empty\<rparr>
                  ''https://example.com/a'' ''Body'' ''Sample''))
          ''https://example.com/a'' ''Other body'' ''Other'')) = False
   \<and> url_hashes (snd (DedupeIndex_add (\<lambda>s. s) (\<lambda>s. s)
          (snd (DedupeIndex_add (\<lambda>s. s) (\<lambda>s. s)
                  \<lparr>url_hashes = Map.empty, content_hashes = Map.empty\<rparr>
                  ''https://example.com/a'' ''Body'' ''Sample''))
          ''https://example.com/a'' ''Other body'' ''Other''))
     = url_hashes (snd (DedupeIndex_add (\<lambda>s. s) (\<lambda>s. s)
                  \<lparr>url_hashes = Map.empty, content_hashes = Map.empty\<rparr>
                  ''https://example.com/a'' ''Body'' ''Sample''))
   \<and> content_hashes (snd (DedupeIndex_add (\<lambda>s. s) (\<lambda>s. s)
          (snd (DedupeIndex_add (\<lambda>s. s) (\<lambda>s. s)
                  \<lparr>url_hashes = Map.empty, content_hashes = Map.empty\<rparr>
                  ''https://example.com/a'' ''Body'' ''Sample''))
          ''https://example.com/a'' ''Other body'' ''Other''))
     = content_hashes (snd (DedupeIndex_add (\<lambda>s. s) (\<lambda>s. s)
                  \<lparr>url_hashes = Map.empty, content_hashes = Map.empty\<rparr>
                  ''https://example.com/a'' ''Body'' ''Sample''))"
proof -
  let ?i1 = "snd (DedupeIndex_add (\<lambda>s. s) (\<lambda>s. s)
                  \<lparr>url_hashes = Map.empty, content_hashes = Map.empty\<rparr>
                  ''https://example.com/a'' ''Body'' ''Sample'')"
  let ?r = "DedupeIndex_add (\<lambda>s. s) (\<lambda>s. s) ?i1 ''https://example.com/a'' ''Other body'' ''Other''"
  have rej: "fst (fst ?r) = False"
    by (simp add: DedupeIndex_add_def Let_def)
  have "?r = ((fst (fst ?r), snd (fst ?r)), snd ?r)" by simp
  from add_atomic_on_rejection [OF this] rej show ?thesis by simp
qed

section \<open>Floating-point numbers: results\<close>

text \<open>
  \<open>round_half_even\<close> gives a nearest integer, and the even one where two are nearest.
\<close>

lemma round_half_even_nearest:
  "\<bar>real_of_int (round_half_even y) - y\<bar> \<le> 1/2
   \<and> (\<bar>real_of_int (round_half_even y) - y\<bar> < 1/2 \<or> even (round_half_even y))"
  unfolding round_half_even_def Let_def by (auto simp: abs_if) linarith+

text \<open>
  \<open>binade\<close> is the exponent of its argument, and \<open>fl x\<close> lies within half a unit in
  the last place of \<open>x\<close>.
\<close>

lemma bitlen_powi:
  assumes "0 < n"
  shows "2 powi (bitlen n - 1) \<le> real_of_int n" "real_of_int n + 1 \<le> 2 powi bitlen n"
proof -
  from assms have b1: "1 \<le> bitlen n" by (auto simp: bitlen_alt_def)
  from bitlen_bounds [OF assms]
  have lo: "2 ^ nat (bitlen n - 1) \<le> n" and hi: "n < 2 ^ nat (bitlen n)" by simp_all
  from lo have "real_of_int (2 ^ nat (bitlen n - 1)) \<le> real_of_int n" by linarith
  with b1 show "2 powi (bitlen n - 1) \<le> real_of_int n" by (simp add: power_int_def)
  from hi have "n + 1 \<le> 2 ^ nat (bitlen n)" by simp
  then have "real_of_int (n + 1) \<le> real_of_int (2 ^ nat (bitlen n))" by linarith
  with b1 show "real_of_int n + 1 \<le> 2 powi bitlen n" by (simp add: power_int_def)
qed

lemma binade_bounds:
  assumes "x \<noteq> 0"
  shows "2 powi binade x \<le> \<bar>x\<bar>" and "\<bar>x\<bar> < 2 powi (binade x + 1)"
proof -
  have "2 powi binade x \<le> \<bar>x\<bar> \<and> \<bar>x\<bar> < 2 powi (binade x + 1)"
  proof (cases "1 \<le> \<bar>x\<bar>")
    case True
    define n where "n = \<lfloor>\<bar>x\<bar>\<rfloor>"
    from True have n: "0 < n" "real_of_int n \<le> \<bar>x\<bar>" "\<bar>x\<bar> < real_of_int n + 1"
      unfolding n_def by linarith+
    from bitlen_powi [OF n(1)] n(2,3) True show ?thesis
      by (simp add: binade_def n_def [symmetric])
  next
    case False
    define y where "y = 1 / \<bar>x\<bar>"
    define m where "m = \<lceil>y\<rceil> - 1"
    from False assms have x: "0 < \<bar>x\<bar>" "\<bar>x\<bar> < 1" by simp_all
    then have y: "1 < y" by (simp add: y_def)
    then have m: "0 < m" "real_of_int m < y" "y \<le> real_of_int m + 1"
      unfolding m_def by linarith+
    from bitlen_powi [OF m(1)] m(2,3)
    have lo: "2 powi (bitlen m - 1) < y" and hi: "y \<le> 2 powi bitlen m" by linarith+
    have xy: "\<bar>x\<bar> = 1 / y" using x by (simp add: y_def)
    have p: "(0::real) < 2 powi (bitlen m - 1)" "(0::real) < 2 powi bitlen m" by simp_all
    from hi y have "1 / 2 powi bitlen m \<le> 1 / y"
      by (intro divide_left_mono) (simp_all add: p)
    then have a: "2 powi (- bitlen m) \<le> \<bar>x\<bar>"
      by (simp add: xy power_int_minus divide_inverse)
    from lo p(1) y have "1 / y < 1 / 2 powi (bitlen m - 1)"
      by (intro divide_strict_left_mono mult_pos_pos) simp_all
    moreover have "1 / 2 powi (bitlen m - 1) = (2::real) powi (- bitlen m + 1)"
      using power_int_minus [of "2::real" "bitlen m - 1"] by (simp add: divide_inverse)
    ultimately have b: "\<bar>x\<bar> < 2 powi (- bitlen m + 1)" by (simp add: xy)
    from a b False show ?thesis
      by (simp add: binade_def y_def [symmetric] m_def [symmetric])
  qed
  then show "2 powi binade x \<le> \<bar>x\<bar>" and "\<bar>x\<bar> < 2 powi (binade x + 1)" by simp_all
qed

lemma fl_nearest:
  assumes "x \<noteq> 0"
  shows "\<bar>fl x - x\<bar> \<le> 2 powi (max (binade x) (- 1022) - 53)"
proof -
  define u :: real where "u = 2 powi (max (binade x) (- 1022) - 52)"
  have u: "0 < u" by (simp add: u_def)
  from round_half_even_nearest [of "x / u"]
  have "\<bar>real_of_int (round_half_even (x / u)) - x / u\<bar> \<le> 1/2" by simp
  then have "\<bar>real_of_int (round_half_even (x / u)) - x / u\<bar> * u \<le> 1/2 * u"
    using u by (intro mult_right_mono) simp_all
  also have "\<bar>real_of_int (round_half_even (x / u)) - x / u\<bar> * u
      = \<bar>(real_of_int (round_half_even (x / u)) - x / u) * u\<bar>"
    using u by (simp add: abs_mult)
  also have "(real_of_int (round_half_even (x / u)) - x / u) * u
      = real_of_int (round_half_even (x / u)) * u - x"
    using u by (simp add: left_diff_distrib)
  also have "1/2 * u = 2 powi (max (binade x) (- 1022) - 53)"
    using power_int_diff [of "2::real" "max (binade x) (- 1022) - 52" 1]
    by (simp add: u_def)
  finally show ?thesis using assms by (simp add: fl_def Let_def u_def)
qed

text \<open>The floats that the single-member score starts from are exact.\<close>

lemma fl_100: "fl 100 = 100"
  by code_simp

lemma fl_1: "fl 1 = 1"
  by code_simp

lemma fl_2: "fl 2 = 2"
  by code_simp

lemma fl_half: "fl (1/2) = 1/2"
  by code_simp

section \<open>Clustering and scoring: results\<close>

lemma fold_sentiment_step:
  "fold sentiment_step its s =
     s + int (length (filter (title_has positive_keywords) its))
       - int (length (filter (title_has negative_keywords) its))"
  by (induction its arbitrary: s) (simp_all add: sentiment_step_def title_has_def Let_def)

text \<open>
  C7 as stated: the counter moves once for every keyword that matches. It fails for a
  title that holds two positive keywords: the code counts the title once and gives no
  hint, counting every matching keyword gives \<^verbatim>\<open>"positive"\<close>.
\<close>

theorem sentiment_hint_counterexample:
  "sentiment_hint
     [\<lparr>schema_version = ''1.0'', origin = ''test'', item_id = ''1'', source = ''coindesk'',
       url = ''https://example.com/a'', title = ''Launch brings surge'', summary = None,
       published_at = 0, published_at_aware = True, fetched_at = 0,
       content_text = None, language = None,
       hash = ''abc'', score_hint = None\<rparr>] = None
   \<and> sentiment_hint_per_match
     [\<lparr>schema_version = ''1.0'', origin = ''test'', item_id = ''1'', source = ''coindesk'',
       url = ''https://example.com/a'', title = ''Launch brings surge'', summary = None,
       published_at = 0, published_at_aware = True, fetched_at = 0,
       content_text = None, language = None,
       hash = ''abc'', score_hint = None\<rparr>] = Some ''positive''"
  by code_simp

text \<open>
  C7, amended: the titles of all members are lower-cased and tested against the two
  fixed keyword sets; the counter goes up by one for every title that holds at least one
  positive keyword and down by one for every title that holds at least one negative
  keyword. The hint is \<^verbatim>\<open>"positive"\<close> if the counter is greater than 1,
  \<^verbatim>\<open>"negative"\<close> if it is less than -1, and absent otherwise.
\<close>

theorem sentiment_hint_per_title:
  "sentiment_hint its =
     (let counter = int (length (filter (title_has positive_keywords) its))
                  - int (length (filter (title_has negative_keywords) its))
      in if counter > 1 then Some ''positive''
         else if counter < - 1 then Some ''negative'' else None)"
  by (simp add: sentiment_hint_def fold_sentiment_step Let_def)

lemma first_seen_nonempty: "items c \<noteq> [] \<Longrightarrow> \<exists>fs. first_seen c = Inr fs"
  by (cases "items c") (simp_all add: first_seen_def)

lemma last_seen_nonempty: "items c \<noteq> [] \<Longrightarrow> \<exists>ls. last_seen c = Inr ls"
  by (cases "items c") (simp_all add: last_seen_def)

lemma add_items: "items (ClusterCandidate_add c item s) = items c @ [item]"
  by (simp add: ClusterCandidate_add_def Let_def)

lemma add_similarities: "similarities (ClusterCandidate_add c item s) = similarities c @ [s]"
  by (simp add: ClusterCandidate_add_def Let_def)



lemma scan_shape:
  assumes "\<forall>c \<in> set cs. items c \<noteq> []"
  shows "scan_clusters ratio w th item t cs = Inr None
       \<or> (\<exists>i. i < length cs \<and> scan_clusters ratio w th item t cs =
             Inr (Some (cs[i := ClusterCandidate_add (cs ! i) item
                    (ratio t (normalize_title (canonical_title (cs ! i))))])))"
  using assms
proof (induction cs)
  case Nil
  then show ?case by simp
next
  case (Cons c cs)
  then obtain fs where fs: "first_seen c = Inr fs"
    using first_seen_nonempty by fastforce
  from Cons have "scan_clusters ratio w th item t cs = Inr None
       \<or> (\<exists>i. i < length cs \<and> scan_clusters ratio w th item t cs =
             Inr (Some (cs[i := ClusterCandidate_add (cs ! i) item
                    (ratio t (normalize_title (canonical_title (cs ! i))))])))"
    by simp
  then consider (none) "scan_clusters ratio w th item t cs = Inr None"
    | (some) i where "i < length cs" "scan_clusters ratio w th item t cs =
             Inr (Some (cs[i := ClusterCandidate_add (cs ! i) item
                    (ratio t (normalize_title (canonical_title (cs ! i))))]))"
    by blast
  then show ?case
  proof cases
    case none
    show ?thesis
    proof (cases "scan_clusters ratio w th item t (c # cs) = Inr None")
      case True
      then show ?thesis by simp
    next
      case False
      with none fs have "scan_clusters ratio w th item t (c # cs) =
          Inr (Some ((c # cs)[0 := ClusterCandidate_add ((c # cs) ! 0) item
                 (ratio t (normalize_title (canonical_title ((c # cs) ! 0))))]))"
        by (auto simp: Let_def split: if_splits)
      then show ?thesis by blast
    qed
  next
    case some
    show ?thesis
    proof (cases "scan_clusters ratio w th item t (c # cs) =
          Inr (Some (ClusterCandidate_add c item
                 (ratio t (normalize_title (canonical_title c))) # cs))")
      case True
      then have "scan_clusters ratio w th item t (c # cs) =
          Inr (Some ((c # cs)[0 := ClusterCandidate_add ((c # cs) ! 0) item
                 (ratio t (normalize_title (canonical_title ((c # cs) ! 0))))]))"
        by simp
      then show ?thesis by blast
    next
      case False
      with some fs have "scan_clusters ratio w th item t (c # cs) =
          Inr (Some ((c # cs)[Suc i := ClusterCandidate_add ((c # cs) ! Suc i) item
                 (ratio t (normalize_title (canonical_title ((c # cs) ! Suc i))))]))"
        by (auto simp: Let_def split: if_splits)
      moreover have "Suc i < length (c # cs)" using some by simp
      ultimately show ?thesis by blast
    qed
  qed
qed

lemma new_cluster:
  "ClusterCandidate_add \<lparr>canonical_title = title item, items = [], similarities = []\<rparr> item 100
     = \<lparr>canonical_title = title item, items = [item], similarities = [100]\<rparr>"
  by (simp add: ClusterCandidate_add_def max_default_def Let_def)





lemmas eval_defs = place_item_def ClusterCandidate_add_def max_default_def first_seen_def
  accepts_def test_item_def normalize_title_def normalize_whitespace_def strip_def
  is_space_def Let_def


lemma max_default_ge: "x \<in> set xs \<Longrightarrow> x \<le> max_default xs d"
proof (cases xs)
  case Nil
  then show "x \<in> set xs \<Longrightarrow> x \<le> max_default xs d" by simp
next
  case (Cons y ys)
  assume "x \<in> set xs"
  with Cons have "x \<le> Max (set (y # ys))" by (intro Max_ge) auto
  also have "Max (set (y # ys)) = fold max ys y" by (rule Max.set_eq_fold)
  finally show "x \<le> max_default xs d" by (simp add: max_default_def Cons)
qed

lemma add_inv:
  assumes "cluster_inv c" and "s \<le> 100"
  shows "cluster_inv (ClusterCandidate_add c item s)"
proof -
  from assms(1) have "100 \<le> max_default (similarities c) 0"
    by (intro max_default_ge) (simp add: cluster_inv_def)
  with assms(2) have "\<not> s > max_default (butlast (similarities c @ [s])) 0" by simp
  with assms(1) show ?thesis
    by (auto simp: cluster_inv_def ClusterCandidate_add_def Let_def)
qed

lemma new_inv:
  "cluster_inv \<lparr>canonical_title = title item, items = [item], similarities = [100]\<rparr>"
  by (simp add: cluster_inv_def)

lemma place_item_inv:
  assumes "\<forall>a b. ratio a b \<le> 100" and "\<forall>c \<in> set cs. cluster_inv c"
  shows "\<exists>cs'. place_item ratio w th cs item = Inr cs' \<and> (\<forall>c \<in> set cs'. cluster_inv c)"
proof -
  from assms(2) have ne: "\<forall>c \<in> set cs. items c \<noteq> []" by (simp add: cluster_inv_def)
  from scan_shape [OF ne, of ratio w th item "normalize_title (title item)"]
  consider (none) "scan_clusters ratio w th item (normalize_title (title item)) cs = Inr None"
    | (some) i where "i < length cs"
        "scan_clusters ratio w th item (normalize_title (title item)) cs =
             Inr (Some (cs[i := ClusterCandidate_add (cs ! i) item
                    (ratio (normalize_title (title item))
                       (normalize_title (canonical_title (cs ! i))))]))"
    by blast
  then show ?thesis
  proof cases
    case none
    with assms(2) show ?thesis
      by (simp add: place_item_def new_cluster new_inv)
  next
    case some
    from some(1) assms have "cluster_inv (ClusterCandidate_add (cs ! i) item
                    (ratio (normalize_title (title item))
                       (normalize_title (canonical_title (cs ! i)))))"
      by (intro add_inv) simp_all
    with assms(2) have "\<forall>c \<in> set (cs[i := ClusterCandidate_add (cs ! i) item
                    (ratio (normalize_title (title item))
                       (normalize_title (canonical_title (cs ! i))))]). cluster_inv c"
      by (auto dest!: set_update_subset_insert [THEN subsetD])
    with some show ?thesis
      by (simp add: place_item_def)
  qed
qed

lemma place_all_inv:
  assumes "\<forall>a b. ratio a b \<le> 100" and "\<forall>c \<in> set cs. cluster_inv c"
  shows "\<exists>cs'. place_all ratio w th cs its = Inr cs' \<and> (\<forall>c \<in> set cs'. cluster_inv c)"
  using assms(2)
proof (induction its arbitrary: cs)
  case Nil
  then show ?case by simp
next
  case (Cons item its)
  from place_item_inv [OF assms(1) Cons.prems, of w th item]
  obtain cs1 where 1: "place_item ratio w th cs item = Inr cs1"
    and 2: "\<forall>c \<in> set cs1. cluster_inv c" by blast
  from Cons.IH [OF 2] 1 show ?case by simp
qed

lemma place_item_members:
  assumes "\<forall>c \<in> set cs. items c \<noteq> [] \<and> set (items c) \<subseteq> S" and "item \<in> S"
  shows "\<exists>cs'. place_item ratio w th cs item = Inr cs' \<and> cs' \<noteq> []
           \<and> (\<forall>c \<in> set cs'. items c \<noteq> [] \<and> set (items c) \<subseteq> S)"
proof -
  from assms(1) have ne: "\<forall>c \<in> set cs. items c \<noteq> []" by simp
  from scan_shape [OF ne, of ratio w th item "normalize_title (title item)"]
  consider (none) "scan_clusters ratio w th item (normalize_title (title item)) cs = Inr None"
    | (some) i where "i < length cs"
        "scan_clusters ratio w th item (normalize_title (title item)) cs =
             Inr (Some (cs[i := ClusterCandidate_add (cs ! i) item
                    (ratio (normalize_title (title item))
                       (normalize_title (canonical_title (cs ! i))))]))"
    by blast
  then show ?thesis
  proof cases
    case none
    with assms show ?thesis
      by (simp add: place_item_def new_cluster)
  next
    case some
    from some(1) assms(1) have "set (items (cs ! i)) \<subseteq> S" by simp
    with assms(2) have "set (items (ClusterCandidate_add (cs ! i) item
                    (ratio (normalize_title (title item))
                       (normalize_title (canonical_title (cs ! i)))))) \<subseteq> S"
      by (simp add: add_items)
    with assms(1) have "\<forall>c \<in> set (cs[i := ClusterCandidate_add (cs ! i) item
                    (ratio (normalize_title (title item))
                       (normalize_title (canonical_title (cs ! i))))]).
             items c \<noteq> [] \<and> set (items c) \<subseteq> S"
      by (auto simp: add_items dest!: set_update_subset_insert [THEN subsetD])
    moreover from some(1) have "cs[i := ClusterCandidate_add (cs ! i) item
                    (ratio (normalize_title (title item))
                       (normalize_title (canonical_title (cs ! i))))] \<noteq> []"
      by auto
    ultimately show ?thesis using some(2)
      by (simp add: place_item_def)
  qed
qed

lemma place_all_members:
  assumes "\<forall>c \<in> set cs. items c \<noteq> [] \<and> set (items c) \<subseteq> S" and "set its \<subseteq> S"
  shows "\<exists>cs'. place_all ratio w th cs its = Inr cs' \<and> (its = [] \<or> cs' \<noteq> [])
           \<and> (\<forall>c \<in> set cs'. items c \<noteq> [] \<and> set (items c) \<subseteq> S)"
  using assms
proof (induction its arbitrary: cs)
  case Nil
  then show ?case by simp
next
  case (Cons item its)
  from Cons.prems(2) have "item \<in> S" by simp
  from place_item_members [OF Cons.prems(1) this, of ratio w th]
  obtain cs1 where 1: "place_item ratio w th cs item = Inr cs1" and 2: "cs1 \<noteq> []"
    and 3: "\<forall>c \<in> set cs1. items c \<noteq> [] \<and> set (items c) \<subseteq> S" by blast
  from Cons.prems(2) have "set its \<subseteq> S" by simp
  from Cons.IH [OF 3 this]
  obtain cs' where 4: "place_all ratio w th cs1 its = Inr cs'"
    and 5: "its = [] \<or> cs' \<noteq> []"
    and 6: "\<forall>c \<in> set cs'. items c \<noteq> [] \<and> set (items c) \<subseteq> S" by blast
  have "cs' \<noteq> []"
  proof (cases its)
    case Nil
    with 4 2 show ?thesis by simp
  next
    case (Cons a list)
    with 5 show ?thesis by simp
  qed
  with 1 4 6 show ?case by simp
qed

lemma to_schema_aware:
  assumes "items c \<noteq> []" and "list_all published_at_aware (items c)"
  shows "\<exists>n. to_schema c origin' now = Inr n \<and> nc_canonical_title n = canonical_title c"
proof -
  from assms(1) obtain fs ls i0 rest where "first_seen c = Inr fs" "last_seen c = Inr ls"
    "items c = i0 # rest"
    using first_seen_nonempty last_seen_nonempty by (metis list.exhaust)
  with assms(2) show ?thesis
    by (simp add: to_schema_def freshness_score_def Let_def)
qed

lemma to_schema_naive:
  assumes "items c \<noteq> []" and "\<not> list_all published_at_aware (items c)"
  shows "to_schema c origin' now = Inl TypeError"
proof -
  from assms(1) obtain fs where "first_seen c = Inr fs"
    using first_seen_nonempty by blast
  with assms(2) show ?thesis
    by (simp add: to_schema_def freshness_score_def Let_def)
qed

lemma to_schema_all_aware:
  assumes "\<forall>c \<in> set cs. items c \<noteq> [] \<and> list_all published_at_aware (items c)"
  shows "\<exists>out. to_schema_all clock origin' i cs = Inr out \<and> length out = length cs
           \<and> (\<forall>k < length cs. nc_canonical_title (out ! k) = canonical_title (cs ! k))"
  using assms
proof (induction cs arbitrary: i)
  case Nil
  then show ?case by simp
next
  case (Cons c cs)
  from Cons.prems have "items c \<noteq> []" "list_all published_at_aware (items c)" by simp_all
  from to_schema_aware [OF this, of origin' "clock i"]
  obtain n where n: "to_schema c origin' (clock i) = Inr n"
    "nc_canonical_title n = canonical_title c" by blast
  from Cons.prems
  have "\<forall>c \<in> set cs. items c \<noteq> [] \<and> list_all published_at_aware (items c)" by simp
  from Cons.IH [OF this, of "Suc i"]
  obtain out where out: "to_schema_all clock origin' (Suc i) cs = Inr out"
    "length out = length cs"
    "\<forall>k < length cs. nc_canonical_title (out ! k) = canonical_title (cs ! k)" by blast
  have "\<forall>k < length (c # cs). nc_canonical_title ((n # out) ! k) = canonical_title ((c # cs) ! k)"
    using n(2) out(3) by (auto simp: nth_Cons split: nat.splits)
  with n(1) out(1,2) show ?case by simp
qed

lemma sorted_items_mixed:
  assumes "list_ex published_at_aware its"
    and "list_ex (\<lambda>item. \<not> published_at_aware item) its"
  shows "cluster_news ratio clock its w th origin' = Inl TypeError"
  using assms by (simp add: cluster_news_def cluster_candidates_def sorted_items_def)

text \<open>
  C9. With a similarity function whose values are at most 100, a call of
  \<^verbatim>\<open>cluster_news\<close> goes one of two ways. Either an item has a naive \<^verbatim>\<open>published_at\<close>
  and the call raises \<^verbatim>\<open>TypeError\<close>, so that no \<^verbatim>\<open>NewsCluster\<close> is produced. Or it
  returns one \<^verbatim>\<open>NewsCluster\<close> for each cluster, and its \<^verbatim>\<open>canonical_title\<close> is the title
  of the first member of that cluster, the item that opened it.
\<close>

theorem canonical_title_first_member:
  assumes "\<forall>a b. ratio a b \<le> 100"
  shows "(list_ex (\<lambda>item. \<not> published_at_aware item) its
          \<and> cluster_news ratio clock its w th origin' = Inl TypeError)
       \<or> (\<exists>cs out.
           cluster_candidates ratio its w th = Inr cs
         \<and> cluster_news ratio clock its w th origin' = Inr out
         \<and> length out = length cs
         \<and> (\<forall>k < length cs. items (cs ! k) \<noteq> []
                \<and> nc_canonical_title (out ! k) = title (hd (items (cs ! k)))))"
proof (cases "list_ex published_at_aware its
    \<and> list_ex (\<lambda>item. \<not> published_at_aware item) its")
  case True
  with sorted_items_mixed [of its ratio clock w th origin'] show ?thesis by simp
next
  case False
  then have sorted: "sorted_items its = Inr (sort_key published_at its)"
    by (simp add: sorted_items_def)
  have "\<forall>c \<in> set ([] :: ClusterCandidate list). cluster_inv c" by simp
  from place_all_inv [OF assms this, of w th "sort_key published_at its"] sorted
  obtain cs where cs: "cluster_candidates ratio its w th = Inr cs"
    and inv: "\<forall>c \<in> set cs. cluster_inv c"
    by (auto simp: cluster_candidates_def)
  have "\<forall>c \<in> set ([] :: ClusterCandidate list). items c \<noteq> [] \<and> set (items c) \<subseteq> set its"
    by simp
  moreover have "set (sort_key published_at its) \<subseteq> set its" by simp
  ultimately obtain cs' where "place_all ratio w th [] (sort_key published_at its) = Inr cs'"
    "sort_key published_at its = [] \<or> cs' \<noteq> []"
    "\<forall>c \<in> set cs'. items c \<noteq> [] \<and> set (items c) \<subseteq> set its"
    using place_all_members [of "[]" "set its" "sort_key published_at its" ratio w th] by blast
  moreover have "sort_key published_at its = [] \<longleftrightarrow> its = []"
    using length_sort [of published_at its] by (metis length_0_conv)
  ultimately have ne: "its = [] \<or> cs \<noteq> []"
    and mem: "\<forall>c \<in> set cs. items c \<noteq> [] \<and> set (items c) \<subseteq> set its"
    using cs sorted by (auto simp: cluster_candidates_def)
  show ?thesis
  proof (cases "list_all published_at_aware its")
    case True
    with mem have "\<forall>c \<in> set cs. items c \<noteq> [] \<and> list_all published_at_aware (items c)"
      by (auto simp: list_all_iff)
    from to_schema_all_aware [OF this, of clock origin' 0]
    obtain out where out: "to_schema_all clock origin' 0 cs = Inr out" "length out = length cs"
      "\<forall>k < length cs. nc_canonical_title (out ! k) = canonical_title (cs ! k)" by blast
    have "\<forall>k < length cs. items (cs ! k) \<noteq> []
                \<and> nc_canonical_title (out ! k) = title (hd (items (cs ! k)))"
      using inv out(3) by (simp add: cluster_inv_def)
    moreover have "cluster_news ratio clock its w th origin' = Inr out"
      by (simp add: cluster_news_def cs out(1))
    ultimately show ?thesis using cs out(2) by blast
  next
    case naive: False
    then have ex: "list_ex (\<lambda>item. \<not> published_at_aware item) its"
      by (auto simp: list_all_iff list_ex_iff)
    with False have none: "\<forall>item \<in> set its. \<not> published_at_aware item"
      by (auto simp: list_ex_iff)
    from ex have "its \<noteq> []" by auto
    with ne obtain c rest where c: "cs = c # rest" by (cases cs) auto
    with mem have "items c \<noteq> []" "set (items c) \<subseteq> set its" by simp_all
    with none have "items c \<noteq> []" "\<not> list_all published_at_aware (items c)"
      by (auto simp: list_all_iff neq_Nil_conv)
    from to_schema_naive [OF this, of origin' "clock 0"] c cs
    have "cluster_news ratio clock its w th origin' = Inl TypeError"
      by (simp add: cluster_news_def)
    with ex show ?thesis by simp
  qed
qed

theorem canonical_title_first_member_witness:
  "(\<forall>a b. (if a = b then 100 else if a = ''C'' then 60 else (0::real)) \<le> 100)
   \<and> (\<exists>out. cluster_news (\<lambda>a b. if a = b then 100 else if a = ''C'' then 60 else 0)
                 (\<lambda>i. 200)
                 [test_item ''C'' ''messari'' 120, test_item ''A'' ''coindesk'' 0,
                  test_item ''B'' ''theblock'' 60] 60 (1/2) ''aws-webse'' = Inr out
             \<and> length out = 2
             \<and> nc_canonical_title (out ! 0) = ''A''
             \<and> nc_canonical_title (out ! 1) = ''B'')"
proof -
  let ?R = "\<lambda>a b :: string. if a = b then 100 else if a = ''C'' then 60 else (0::real)"
  let ?its = "[test_item ''C'' ''messari'' 120, test_item ''A'' ''coindesk'' 0,
               test_item ''B'' ''theblock'' 60]"
  have bound: "\<forall>a b. ?R a b \<le> 100" by simp
  have aware: "\<not> list_ex (\<lambda>item. \<not> published_at_aware item) ?its"
    by (simp add: test_item_def)
  have cand: "cluster_candidates ?R ?its 60 (1/2) =
     Inr [\<lparr>canonical_title = ''A'',
           items = [test_item ''A'' ''coindesk'' 0, test_item ''C'' ''messari'' 120],
           similarities = [100, 60]\<rparr>,
          \<lparr>canonical_title = ''B'', items = [test_item ''B'' ''theblock'' 60],
           similarities = [100]\<rparr>]"
    by (simp add: cluster_candidates_def sorted_items_def eval_defs)
  from canonical_title_first_member [OF bound, of ?its "\<lambda>i. 200" 60 "1/2" "''aws-webse''"] aware
  obtain cs out where cs: "cluster_candidates ?R ?its 60 (1/2) = Inr cs"
    and out: "cluster_news ?R (\<lambda>i. 200) ?its 60 (1/2) ''aws-webse'' = Inr out"
    and len: "length out = length cs"
    and ti: "\<forall>k < length cs. items (cs ! k) \<noteq> []
                \<and> nc_canonical_title (out ! k) = title (hd (items (cs ! k)))"
    by blast
  from cs cand have eq: "cs =
     [\<lparr>canonical_title = ''A'',
           items = [test_item ''A'' ''coindesk'' 0, test_item ''C'' ''messari'' 120],
           similarities = [100, 60]\<rparr>,
          \<lparr>canonical_title = ''B'', items = [test_item ''B'' ''theblock'' 60],
           similarities = [100]\<rparr>]"
    by simp
  from ti [rule_format, of 0] eq have t0: "nc_canonical_title (out ! 0) = ''A''"
    by (simp add: test_item_def)
  from ti [rule_format, of 1] eq have t1: "nc_canonical_title (out ! 1) = ''B''"
    by (simp add: test_item_def)
  from len eq have "length out = 2" by simp
  with bound out t0 t1 show ?thesis by blast
qed

lemma source_weight_cases:
  "source_weight s =
     (if s \<in> set [''coindesk'', ''theblock'', ''blockworks'', ''messari''] then 1
      else if s = ''cryptopanic'' then 2 else 1/2)"
  by (simp add: source_weight_def SOURCE_SCORES_def)

lemma fl_source_weight: "fl (source_weight s) = source_weight s"
  by (simp add: source_weight_cases fl_1 fl_2 fl_half)

text \<open>
  C3 as stated fails in two ways. \<^verbatim>\<open>NewsItem\<close> accepts a naive \<^verbatim>\<open>published_at\<close>, and for
  such an item there is no cluster: \<^verbatim>\<open>freshness_score\<close> subtracts it from an aware
  datetime and \<^verbatim>\<open>cluster_news\<close> raises \<^verbatim>\<open>TypeError\<close>. And the score is computed in
  floats: for an item of the source \<^verbatim>\<open>coindesk\<close> that is 84888 seconds old the formula
  is worth 63.175 and gives 63.18 when rounded to 2 decimals, while the sum of the
  floats falls just below 63.175 and \<^verbatim>\<open>cluster_news\<close> returns the float 63.17.
\<close>

theorem single_item_cluster_counterexample:
  "cluster_news (\<lambda>a b. 0) (\<lambda>i. 0)
     [(test_item ''Example Title'' ''coindesk'' 0)\<lparr>published_at_aware := False\<rparr>]
     60 (1/2) ''aws-webse'' = Inl TypeError
   \<and> map_sum id (map nc_score)
       (cluster_news (\<lambda>a b. 0) (\<lambda>i. 84888) [test_item ''Example Title'' ''coindesk'' 0]
          60 (1/2) ''aws-webse'') = Inr [fl (6317/100)]
   \<and> fl (6317/100) = 4445193569703035 / 70368744177664
   \<and> score_exact 1 (84888 / 60) = 6318/100"
  by code_simp

text \<open>
  C3, amended. One item whose \<^verbatim>\<open>published_at\<close> is timezone-aware, \<^verbatim>\<open>window_minutes = 60\<close>
  and \<^verbatim>\<open>similarity_threshold = 0.5\<close>: the result is one cluster with \<^verbatim>\<open>source_count = 1\<close>.
  Its score is the formula evaluated in binary64 floating-point arithmetic, every
  operation and the constants 0.6, 0.3 and 0.1 rounded to the nearest float, and then
  rounded to 2 decimals: it is the float nearest to \<open>k / 100\<close>, where \<open>k / 100\<close> is the
  multiple of 1/100 nearest to the value of the formula, the even \<open>k\<close> when two are
  equally near. The similarity score is 100, the source score is the weight of the
  item's source (1 or 2 for the known sources, 0.5 for any other), and the freshness is
  taken at the clock reading of the call.
\<close>

theorem single_item_cluster:
  assumes "published_at_aware item"
  shows "\<exists>n k. cluster_news ratio clock [item] 60 (1/2) origin' = Inr [n]
       \<and> nc_source_count n = 1
       \<and> (let similarityScore = 100;
               sourceScore =
                 (if source item \<in> set [''coindesk'', ''theblock'', ''blockworks'', ''messari'']
                  then 1 else if source item = ''cryptopanic'' then 2 else 1/2);
               ageMinutes = fdiv (fl (clock 0 - published_at item)) 60;
               freshnessScore = fmul (max 0 (fsub 1 (fdiv ageMinutes 1440))) 100;
               score = fadd (fadd (fmul (fmul (fdiv similarityScore 100) 100) (fl (6/10)))
                               (fmul (fmul sourceScore 10) (fl (3/10))))
                         (fmul freshnessScore (fl (1/10)))
           in \<bar>real_of_int k / 100 - score\<bar> \<le> 1/200
              \<and> (\<bar>real_of_int k / 100 - score\<bar> < 1/200 \<or> even k)
              \<and> nc_score n = fl (real_of_int k / 100))"
proof -
  define score where "score =
     fadd (fadd (fmul (fmul (fdiv 100 100) 100) (fl (6/10)))
                (fmul (fmul (source_weight (source item)) 10) (fl (3/10))))
          (fmul (fmul (max 0 (fsub 1 (fdiv (fdiv (fl (clock 0 - published_at item)) 60) 1440))) 100)
                (fl (1/10)))"
  define k where "k = round_half_even (score * 100)"
  obtain n where n: "cluster_news ratio clock [item] 60 (1/2) origin' = Inr [n]"
      "nc_source_count n = 1" "nc_score n = round2 score"
    using assms
    by (simp add: cluster_news_def cluster_candidates_def sorted_items_def place_item_def
        new_cluster to_schema_def freshness_score_def first_seen_def last_seen_def
        similarity_score_def source_score_def fsum_def fadd_def fdiv_def fl_100
        fl_source_weight total_seconds_def score_def
        SIMILARITY_WEIGHT_def SOURCE_WEIGHT_def FRESHNESS_WEIGHT_def Let_def)
  from round_half_even_nearest [of "score * 100"]
  have "\<bar>real_of_int k / 100 - score\<bar> \<le> 1/200"
    and "\<bar>real_of_int k / 100 - score\<bar> < 1/200 \<or> even k"
    unfolding k_def by (auto simp: abs_if field_simps)
  moreover from n(3) have "nc_score n = fl (real_of_int k / 100)"
    by (simp add: round2_def k_def)
  ultimately show ?thesis
    using n(1,2) unfolding score_def source_weight_cases Let_def by blast
qed

theorem single_item_cluster_witness:
  "published_at_aware (test_item ''Example Title'' ''example'' 0)
   \<and> (\<exists>n. cluster_news (\<lambda>a b. 0) (\<lambda>i. 84888) [test_item ''Example Title'' ''example'' 0]
             60 (1/2) ''aws-webse'' = Inr [n]
          \<and> nc_source_count n = 1
          \<and> nc_score n = fl (6167/100)
          \<and> nc_score n = 4339640453436539 / 70368744177664)
   \<and> (\<exists>n. cluster_news (\<lambda>a b. 0) (\<lambda>i. 85320) [test_item ''Example Title'' ''coindesk'' 0]
             60 (1/2) ''aws-webse'' = Inr [n]
          \<and> nc_source_count n = 1
          \<and> nc_score n = fl (6312/100)
          \<and> nc_score n = 8883350264988303 / 140737488355328)"
proof -
  let ?a = "test_item ''Example Title'' ''example'' 0"
  let ?b = "test_item ''Example Title'' ''coindesk'' 0"
  have aware: "published_at_aware ?a" "published_at_aware ?b"
    by (simp_all add: test_item_def)
  have fields: "source ?a = ''example''" "published_at ?a = 0"
    "source ?b = ''coindesk''" "published_at ?b = 0"
    by (simp_all add: test_item_def)
  have scorea:
    "fadd (fadd (fmul (fmul (fdiv 100 100) 100) (fl (6/10)))
            (fmul (fmul (if ''example'' \<in> set [''coindesk'', ''theblock'', ''blockworks'', ''messari'']
                         then 1 else if ''example'' = ''cryptopanic'' then 2 else 1/2) 10)
               (fl (3/10))))
       (fmul (fmul (max 0 (fsub 1 (fdiv (fdiv (fl (84888 - 0)) 60) 1440))) 100) (fl (1/10)))
       = 4339992297157427 / 70368744177664"
    by code_simp
  have scoreb:
    "fadd (fadd (fmul (fmul (fdiv 100 100) 100) (fl (6/10)))
            (fmul (fmul (if ''coindesk'' \<in> set [''coindesk'', ''theblock'', ''blockworks'', ''messari'']
                         then 1 else if ''coindesk'' = ''cryptopanic'' then 2 else 1/2) 10)
               (fl (3/10))))
       (fmul (fmul (max 0 (fsub 1 (fdiv (fdiv (fl (85320 - 0)) 60) 1440))) 100) (fl (1/10)))
       = 505 / 8"
    by code_simp
  have fla: "fl (6167/100) = 4339640453436539 / 70368744177664" by code_simp
  have flb: "fl (6312/100) = 8883350264988303 / 140737488355328" by code_simp
  from single_item_cluster [OF aware(1), of "\<lambda>a b. 0" "\<lambda>i. 84888" "''aws-webse''",
      unfolded Let_def fields scorea]
  obtain n k where n: "cluster_news (\<lambda>a b. 0) (\<lambda>i. 84888) [?a] 60 (1/2) ''aws-webse'' = Inr [n]"
      "nc_source_count n = 1"
    and k: "\<bar>real_of_int k / 100 - 4339992297157427 / 70368744177664\<bar> \<le> 1/200"
      "nc_score n = fl (real_of_int k / 100)"
    by blast
  from k(1) have "6166 < k" "k < 6168"
    by (simp_all add: abs_le_iff field_simps)
  then have "k = 6167" by simp
  with k(2) have a: "nc_score n = fl (6167/100)" by simp
  from single_item_cluster [OF aware(2), of "\<lambda>a b. 0" "\<lambda>i. 85320" "''aws-webse''",
      unfolded Let_def fields scoreb]
  obtain m j where m: "cluster_news (\<lambda>a b. 0) (\<lambda>i. 85320) [?b] 60 (1/2) ''aws-webse'' = Inr [m]"
      "nc_source_count m = 1"
    and j: "\<bar>real_of_int j / 100 - 505 / 8\<bar> \<le> 1/200"
      "\<bar>real_of_int j / 100 - 505 / 8\<bar> < 1/200 \<or> even j"
      "nc_score m = fl (real_of_int j / 100)"
    by blast
  from j(1) have "6312 \<le> j" "j \<le> 6313"
    by (simp_all add: abs_le_iff field_simps)
  then consider "j = 6312" | "j = 6313" by linarith
  then have "j = 6312"
  proof cases
    case 1
    then show ?thesis .
  next
    case 2
    with j(2) show ?thesis by simp
  qed
  with j(3) have b: "nc_score m = fl (6312/100)" by simp
  from a fla have a': "nc_score n = 4339640453436539 / 70368744177664" by simp
  from b flb have b': "nc_score m = 8883350264988303 / 140737488355328" by simp
  from aware(1) n a a' m b b' show ?thesis by blast
qed

section \<open>Retention sweep: results\<close>

lemma sweep_keys_append:
  "sweep_keys storage fromiso now dry_run (xs @ ys) state =
     (case sweep_keys storage fromiso now dry_run xs state of
        Inl e \<Rightarrow> Inl e
      | Inr state' \<Rightarrow> sweep_keys storage fromiso now dry_run ys state')"
  by (induction xs arbitrary: state) (simp_all split: sum.splits)

lemma sweep_prefixes_append:
  "sweep_prefixes storage fromiso now dry_run (xs @ ys) state =
     (case sweep_prefixes storage fromiso now dry_run xs state of
        Inl e \<Rightarrow> Inl e
      | Inr state' \<Rightarrow> sweep_prefixes storage fromiso now dry_run ys state')"
  by (induction xs arbitrary: state) (simp_all split: sum.splits)

lemma sweep_key_read_fails:
  "get_json storage st key = Inl e \<Longrightarrow>
   sweep_key storage fromiso now dry_run key (st, ds, k) = Inl e"
  by (simp add: sweep_key_def)

lemma sweep_key_no_record:
  "get_json storage st key = Inr None \<Longrightarrow>
   sweep_key storage fromiso now dry_run key (st, ds, k) = Inr (st, ds, k)"
  by (simp add: sweep_key_def)

lemma sweep_key_delete_fails:
  assumes dry: "sweep_key storage fromiso now True key (st, ds, k) = Inr (st, ds @ [key], k)"
    and del: "delete storage st key = Inl e"
  shows "sweep_key storage fromiso now False key (st, ds, k) = Inl e"
proof (cases "get_json storage st key")
  case (Inl e')
  with dry show ?thesis by (simp add: sweep_key_def)
next
  case (Inr ro)
  show ?thesis
  proof (cases ro)
    case None
    with Inr dry show ?thesis by (simp add: sweep_key_def)
  next
    case (Some rcd)
    show ?thesis
    proof (cases rcd)
      case Nil
      with Inr Some dry show ?thesis by (simp add: sweep_key_def)
    next
      case (Cons f fs)
      define c where "c = (case map_of rcd ''created_at'' of None \<Rightarrow> JNull | Some v \<Rightarrow> v)"
      define t where "t = (case map_of rcd ''ttl_days'' of None \<Rightarrow> JInt 14 | Some v \<Rightarrow> v)"
      have unf: "sweep_key storage fromiso now d key (st, ds, k) =
          (if \<not> truthy c then Inr (st, ds, k + 1)
           else (case parse_timestamp fromiso c of
                   Inl e \<Rightarrow> Inl e
                 | Inr created \<Rightarrow>
                     (case age_reached \<lfloor>(now - created) / 86400\<rfloor> t of
                        Inl e \<Rightarrow> Inl e
                      | Inr True \<Rightarrow>
                          (if \<not> d
                           then (case delete storage st key of
                                   Inl e \<Rightarrow> Inl e
                                 | Inr st' \<Rightarrow> Inr (st', ds @ [key], k))
                           else Inr (st, ds @ [key], k))
                      | Inr False \<Rightarrow> Inr (st, ds, k + 1))))" for d
      proof -
        have g: "get_json storage st key = Inr (Some (f # fs))"
          using Inr Some Cons by simp
        show ?thesis
          unfolding sweep_key_def Let_def c_def t_def
          by (simp only: g Cons prod.case sum.case option.case list.case)
      qed
      show ?thesis
      proof (cases "truthy c")
        case False
        with dry unf [of True] show ?thesis by simp
      next
        case True
        show ?thesis
        proof (cases "parse_timestamp fromiso c")
          case (Inl e')
          with dry unf [of True] True show ?thesis by simp
        next
          case pr: (Inr created)
          show ?thesis
          proof (cases "age_reached \<lfloor>(now - created) / 86400\<rfloor> t")
            case (Inl e')
            with dry unf [of True] True pr show ?thesis by simp
          next
            case ar: (Inr b)
            show ?thesis
            proof (cases b)
              case False
              with dry unf [of True] True pr ar show ?thesis by simp
            next
              case b: True
              with unf [of False] True pr ar del show ?thesis by simp
            qed
          qed
        qed
      qed
    qed
  qed
qed

lemma cleanup_aborts:
  assumes "PREFIXES = ps1 @ prefix # ps2"
    and "sweep_prefixes storage fromiso now dry_run ps1 (st, [], 0) = Inr (st0, ds0, k0)"
    and "storage_list storage st0 prefix 1000 = Inr (pre @ key # post)"
    and "sweep_keys storage fromiso now dry_run pre (st0, ds0, k0) = Inr state1"
    and "sweep_key storage fromiso now dry_run key state1 = Inl e"
  shows "cleanup storage fromiso now dry_run st = Inl e"
proof -
  from assms(4,5) have "sweep_keys storage fromiso now dry_run (pre @ key # post) (st0, ds0, k0)
      = Inl e"
    by (simp add: sweep_keys_append)
  with assms(3) have "sweep_prefixes storage fromiso now dry_run (prefix # ps2) (st0, ds0, k0)
      = Inl e"
    by simp
  with assms(2) have "sweep_prefixes storage fromiso now dry_run (ps1 @ prefix # ps2) (st, [], 0)
      = Inl e"
    by (simp add: sweep_prefixes_append)
  with assms(1) show ?thesis by (simp add: cleanup_def)
qed

text \<open>
  C2 as stated: a failure deleting the record of one key does not stop the sweep, which
  goes on with the other keys and returns its result. With two expired records and a
  storage whose \<^verbatim>\<open>delete\<close> fails for the first, the exception leaves \<^verbatim>\<open>cleanup\<close>: there is
  no result, and the second record, which the sweep deletes when nothing fails, is never
  looked at.
\<close>

theorem cleanup_counterexample:
  "cleanup (list_store [''news/raw/coindesk/19700101/a.json'']) iso_epoch 1728000 False
     old_records = Inl StorageError
   \<and> cleanup (list_store []) iso_epoch 1728000 False old_records =
       Inr (\<lparr>deleted = [''news/raw/coindesk/19700101/a.json'',
                         ''news/raw/coindesk/19700101/b.json''], kept = 0\<rparr>, [])"
  by (simp add: cleanup_def PREFIXES_def list_store_def old_records_def iso_epoch_def
      sweep_key_def parse_timestamp_def age_reached_def Let_def)

text \<open>
  C2, amended: in the sweep over the keys of a prefix, reached with the earlier prefixes
  and keys processed, a key for which the storage returns no record is skipped and the
  sweep goes on with the remaining keys. An exception raised by the read of a key, or
  by the delete of an expired key when the sweep is not a dry run, is not caught: it
  leaves \<^verbatim>\<open>cleanup\<close>, so the remaining keys and prefixes are not processed and no result
  is returned.
\<close>

theorem cleanup_failure_not_isolated:
  assumes "PREFIXES = ps1 @ prefix # ps2"
    and "sweep_prefixes storage fromiso now False ps1 (st, [], 0) = Inr (st0, ds0, k0)"
    and "storage_list storage st0 prefix 1000 = Inr (pre @ key # post)"
    and "sweep_keys storage fromiso now False pre (st0, ds0, k0) = Inr (st1, ds1, k1)"
  shows "(get_json storage st1 key = Inr None \<longrightarrow>
            sweep_keys storage fromiso now False (pre @ key # post) (st0, ds0, k0)
              = sweep_keys storage fromiso now False post (st1, ds1, k1))
       \<and> (get_json storage st1 key = Inl e \<longrightarrow> cleanup storage fromiso now False st = Inl e)
       \<and> (sweep_key storage fromiso now True key (st1, ds1, k1) = Inr (st1, ds1 @ [key], k1)
            \<and> delete storage st1 key = Inl e \<longrightarrow>
          cleanup storage fromiso now False st = Inl e)"
proof -
  have skip: "sweep_keys storage fromiso now False (pre @ key # post) (st0, ds0, k0)
              = sweep_keys storage fromiso now False post (st1, ds1, k1)"
    if "get_json storage st1 key = Inr None"
    using that assms(4) by (simp add: sweep_keys_append sweep_key_no_record)
  have rd: "cleanup storage fromiso now False st = Inl e"
    if "get_json storage st1 key = Inl e"
    using cleanup_aborts [OF assms sweep_key_read_fails [OF that]] .
  have dl: "cleanup storage fromiso now False st = Inl e"
    if "sweep_key storage fromiso now True key (st1, ds1, k1) = Inr (st1, ds1 @ [key], k1)"
      "delete storage st1 key = Inl e"
    using cleanup_aborts [OF assms sweep_key_delete_fails [OF that]] .
  from skip rd dl show ?thesis by blast
qed

theorem cleanup_failure_not_isolated_witness:
  "sweep_key (list_store [''news/raw/coindesk/19700101/a.json'']) iso_epoch 1728000 True
     ''news/raw/coindesk/19700101/a.json'' (old_records, [], 0)
     = Inr (old_records, [''news/raw/coindesk/19700101/a.json''], 0)
   \<and> delete (list_store [''news/raw/coindesk/19700101/a.json'']) old_records
       ''news/raw/coindesk/19700101/a.json'' = Inl StorageError
   \<and> cleanup (list_store [''news/raw/coindesk/19700101/a.json'']) iso_epoch 1728000 False
       old_records = Inl StorageError"
proof -
  let ?a = "''news/raw/coindesk/19700101/a.json''"
  let ?b = "''news/raw/coindesk/19700101/b.json''"
  let ?S = "list_store [?a]"
  have 1: "PREFIXES = [] @ ''news/raw'' # [''news/clustered'', ''market'', ''logs'']"
    by (simp add: PREFIXES_def)
  have 2: "sweep_prefixes ?S iso_epoch 1728000 False [] (old_records, [], 0)
             = Inr (old_records, [], 0)"
    by simp
  have 3: "storage_list ?S old_records ''news/raw'' 1000 = Inr ([] @ ?a # [?b])"
    by (simp add: list_store_def old_records_def)
  have 4: "sweep_keys ?S iso_epoch 1728000 False [] (old_records, [], 0)
             = Inr (old_records, [], 0)"
    by simp
  have 5: "sweep_key ?S iso_epoch 1728000 True ?a (old_records, [], 0)
             = Inr (old_records, [] @ [?a], 0)"
    by (simp add: list_store_def old_records_def iso_epoch_def sweep_key_def
        parse_timestamp_def age_reached_def Let_def)
  have 6: "delete ?S old_records ?a = Inl StorageError"
    by (simp add: list_store_def)
  from cleanup_failure_not_isolated [OF 1 2 3 4, of StorageError] 5 6
  have "cleanup ?S iso_epoch 1728000 False old_records = Inl StorageError" by blast
  with 5 6 show ?thesis by simp
qed

section \<open>URL canonicalization: results\<close>

text \<open>
  C4. \<^verbatim>\<open>canonicalize_url\<close> is not idempotent. Path parameters are looked for in the last
  segment of the path only. In \<^verbatim>\<open>https://example.com/news;jsessionid=1/\<close> the last
  segment is empty, so \<^verbatim>\<open>;jsessionid=1\<close> stays in the path and only the final slash is
  removed. In the result the last segment is \<^verbatim>\<open>news;jsessionid=1\<close>, and a second call
  splits the parameter off and drops it: the canonical form of a canonical form is a
  different URL.
\<close>

theorem canonicalize_url_not_idempotent:
  "canonicalize_url ''https://example.com/news;jsessionid=1/''
     = Inr ''https://example.com/news;jsessionid=1''
   \<and> canonicalize_url ''https://example.com/news;jsessionid=1''
     = Inr ''https://example.com/news''"
  by code_simp

end
